theory Spec2Isabelle
  imports Main "HOL-Library.Word" "HOL-Library.Multiset"
begin

section \<open>Chunk exclusion for hypertables: \<^verbatim>\<open>hypertable_restrict_info.c\<close>\<close>

text \<open>
  The planner folds the filter clauses of a query into one restriction per partitioning
  dimension and asks the catalog for the slices, and then the chunks, that can hold matching
  rows. This theory embeds the accumulators (\<^verbatim>\<open>dimension_restrict_info_open_add\<close>,
  \<^verbatim>\<open>dimension_restrict_info_closed_add\<close>), the extraction of the values of a clause, the
  slice resolvers and \<^verbatim>\<open>hypertable_restrict_info_get_chunk_oids\<close>. The classification of
  a clause (\<^verbatim>\<open>hypertable_restrict_info_add_expr\<close>) rests on PostgreSQL's expression and
  operator services and is not embedded: a clause enters as the strategy and the
  \<^verbatim>\<open>DimensionValues\<close> that the classifier hands to \<^verbatim>\<open>dimension_restrict_info_add\<close>.

  Machine types: \<^verbatim>\<open>int64\<close> and \<^verbatim>\<open>int32\<close> are words read in two's complement (the code
  compares them with the signed \<^verbatim>\<open><\<close> and \<^verbatim>\<open>>\<close>; it does no arithmetic on them),
  \<^verbatim>\<open>StrategyNumber\<close> is PostgreSQL's \<^verbatim>\<open>uint16\<close>. A \<^verbatim>\<open>Datum\<close> is a value of a type
  parameter \<open>'d\<close>, the partitioning descriptor of a dimension a value of \<open>'p\<close>, a stored
  dimension slice a value of \<open>'s\<close>, a chunk identifier a value of \<open>'c\<close>. Functions of
  other files that the code calls are parameters of the functions here; a call is taken to
  return.
\<close>

type_synonym int64 = "64 word"
type_synonym int32 = "32 word"
type_synonym int16 = "16 word"
type_synonym Oid = "32 word"
type_synonym StrategyNumber = "16 word"

text \<open>PostgreSQL's B-tree strategy numbers (\<^verbatim>\<open>access/stratnum.h\<close>).\<close>

definition InvalidStrategy :: StrategyNumber where
  "InvalidStrategy = 0"

definition BTLessStrategyNumber :: StrategyNumber where
  "BTLessStrategyNumber = 1"

definition BTLessEqualStrategyNumber :: StrategyNumber where
  "BTLessEqualStrategyNumber = 2"

definition BTEqualStrategyNumber :: StrategyNumber where
  "BTEqualStrategyNumber = 3"

definition BTGreaterEqualStrategyNumber :: StrategyNumber where
  "BTGreaterEqualStrategyNumber = 4"

definition BTGreaterStrategyNumber :: StrategyNumber where
  "BTGreaterStrategyNumber = 5"

definition InvalidOid :: Oid where
  "InvalidOid = 0"

subsection \<open>Data\<close>

datatype DimensionType = DIMENSION_TYPE_OPEN | DIMENSION_TYPE_CLOSED | DIMENSION_TYPE_ANY

text \<open>
  The fields of \<^verbatim>\<open>Dimension\<close> that the file reads: \<^verbatim>\<open>fd.id\<close>, \<^verbatim>\<open>type\<close>,
  \<^verbatim>\<open>column_attno\<close> and \<^verbatim>\<open>partitioning\<close>.
\<close>

record 'p Dimension =
  fd_id :: int32
  dim_type :: DimensionType
  column_attno :: int16
  partitioning :: 'p

record 'p DimensionRestrictInfoOpen =
  open_dimension :: "'p Dimension"
  lower_bound :: int64
  lower_strategy :: StrategyNumber
  upper_bound :: int64
  upper_strategy :: StrategyNumber

record 'p DimensionRestrictInfoClosed =
  closed_dimension :: "'p Dimension"
  partitions :: "int32 list"
  strategy :: StrategyNumber

record 'd DimensionValues =
  dv_values :: "'d list"
  use_or :: bool
  dv_type :: Oid

text \<open>
  A \<^verbatim>\<open>DimensionRestrictInfo *\<close> points to the base of one of the two structs; which one is
  told by \<^verbatim>\<open>dri->dimension->type\<close>. The variant's constructor is that tag:
  \<^verbatim>\<open>dimension_restrict_info_create\<close> is the only place that builds one, and it refuses any
  other dimension type. The \<^verbatim>\<open>default\<close> branches of the switches in
  \<^verbatim>\<open>dimension_restrict_info_add\<close> and \<^verbatim>\<open>dimension_restrict_info_slices\<close>, which report
  an unknown dimension type, are therefore reached by no value of this type.
\<close>

datatype 'p DimensionRestrictInfo =
  Open "'p DimensionRestrictInfoOpen"
| Closed "'p DimensionRestrictInfoClosed"

datatype error = UnknownDimensionType | NoBaseElementType

text \<open>
  \<^verbatim>\<open>palloc\<close> does not clear memory: the two bounds of a new open restriction hold whatever
  was there, here the arguments \<open>lb0\<close> and \<open>ub0\<close>.
\<close>

definition dimension_restrict_info_open_create ::
  "int64 \<Rightarrow> int64 \<Rightarrow> 'p Dimension \<Rightarrow> 'p DimensionRestrictInfoOpen" where
  "dimension_restrict_info_open_create lb0 ub0 d =
     \<lparr>open_dimension = d, lower_bound = lb0, lower_strategy = InvalidStrategy,
      upper_bound = ub0, upper_strategy = InvalidStrategy\<rparr>"

definition dimension_restrict_info_closed_create ::
  "'p Dimension \<Rightarrow> 'p DimensionRestrictInfoClosed" where
  "dimension_restrict_info_closed_create d =
     \<lparr>closed_dimension = d, partitions = [], strategy = InvalidStrategy\<rparr>"

definition dimension_restrict_info_create ::
  "int64 \<Rightarrow> int64 \<Rightarrow> 'p Dimension \<Rightarrow> error + 'p DimensionRestrictInfo" where
  "dimension_restrict_info_create lb0 ub0 d =
     (case dim_type d of
        DIMENSION_TYPE_OPEN \<Rightarrow> Inr (Open (dimension_restrict_info_open_create lb0 ub0 d))
      | DIMENSION_TYPE_CLOSED \<Rightarrow> Inr (Closed (dimension_restrict_info_closed_create d))
      | _ \<Rightarrow> Inl UnknownDimensionType)"

subsection \<open>The accumulator of an open dimension\<close>

text \<open>
  One turn of the \<^verbatim>\<open>foreach\<close> loop of \<^verbatim>\<open>dimension_restrict_info_open_add\<close>, on the
  value already converted by \<^verbatim>\<open>time_value_to_internal\<close>. The state of the loop is the flag
  \<^verbatim>\<open>restriction_added\<close> and the restriction.
\<close>

definition open_add_value ::
  "StrategyNumber \<Rightarrow> int64 \<Rightarrow> bool \<times> 'p DimensionRestrictInfoOpen
     \<Rightarrow> bool \<times> 'p DimensionRestrictInfoOpen" where
  "open_add_value strat v st =
     (let restriction_added = fst st; dri = snd st in
      if strat = BTLessEqualStrategyNumber \<or> strat = BTLessStrategyNumber then
        (if upper_strategy dri = InvalidStrategy \<or> v <s upper_bound dri
         then (True, dri\<lparr>upper_strategy := strat, upper_bound := v\<rparr>)
         else (restriction_added, dri))
      else if strat = BTGreaterEqualStrategyNumber \<or> strat = BTGreaterStrategyNumber then
        (if lower_strategy dri = InvalidStrategy \<or> lower_bound dri <s v
         then (True, dri\<lparr>lower_strategy := strat, lower_bound := v\<rparr>)
         else (restriction_added, dri))
      else if strat = BTEqualStrategyNumber then
        (True, dri\<lparr>lower_bound := v, upper_bound := v,
                   lower_strategy := BTGreaterEqualStrategyNumber,
                   upper_strategy := BTLessEqualStrategyNumber\<rparr>)
      else (restriction_added, dri))"

text \<open>
  \<^verbatim>\<open>time_value_to_internal\<close> is declared in \<^verbatim>\<open>utils.h\<close>; it is the parameter \<open>tvi\<close>, called
  as the code calls it with the datum and the type of the values. The result is the flag the
  function returns and the restriction it leaves behind.
\<close>

definition dimension_restrict_info_open_add ::
  "('d \<Rightarrow> Oid \<Rightarrow> int64) \<Rightarrow> 'p DimensionRestrictInfoOpen \<Rightarrow> StrategyNumber
     \<Rightarrow> 'd DimensionValues \<Rightarrow> bool \<times> 'p DimensionRestrictInfoOpen" where
  "dimension_restrict_info_open_add tvi dri strat dimValues =
     (if use_or dimValues \<and> length (dv_values dimValues) > 1 then (False, dri)
      else foldl (\<lambda>st item. open_add_value strat (tvi item (dv_type dimValues)) st)
             (False, dri) (dv_values dimValues))"

subsection \<open>The accumulator of a closed dimension\<close>

text \<open>PostgreSQL's integer-list primitives (\<^verbatim>\<open>nodes/list.c\<close>).\<close>

definition list_append_unique_int :: "int32 list \<Rightarrow> int32 \<Rightarrow> int32 list" where
  "list_append_unique_int l datum = (if datum \<in> set l then l else l @ [datum])"

definition list_intersection_int :: "int32 list \<Rightarrow> int32 list \<Rightarrow> int32 list" where
  "list_intersection_int list1 list2 =
     (if list1 = [] \<or> list2 = [] then [] else filter (\<lambda>x. x \<in> set list2) list1)"

text \<open>
  \<^verbatim>\<open>partitioning_func_apply\<close> is the parameter \<open>pfa\<close>: the partition number of a datum
  under the partitioning descriptor of the dimension.
\<close>

definition dimension_restrict_info_get_partitions ::
  "('p \<Rightarrow> 'd \<Rightarrow> int32) \<Rightarrow> 'p DimensionRestrictInfoClosed \<Rightarrow> 'd list \<Rightarrow> int32 list" where
  "dimension_restrict_info_get_partitions pfa dri vals =
     foldl (\<lambda>parts item.
              list_append_unique_int parts (pfa (partitioning (closed_dimension dri)) item))
       [] vals"

definition dimension_restrict_info_closed_add ::
  "('p \<Rightarrow> 'd \<Rightarrow> int32) \<Rightarrow> 'p DimensionRestrictInfoClosed \<Rightarrow> StrategyNumber
     \<Rightarrow> 'd DimensionValues \<Rightarrow> bool \<times> 'p DimensionRestrictInfoClosed" where
  "dimension_restrict_info_closed_add pfa dri strat dimValues =
     (if strat \<noteq> BTEqualStrategyNumber then (False, dri)
      else
        let parts = dimension_restrict_info_get_partitions pfa dri (dv_values dimValues) in
        if length parts > 1 \<and> \<not> use_or dimValues
        then (True, dri\<lparr>strategy := strat, partitions := []\<rparr>)
        else if strategy dri = InvalidStrategy
        then (True, dri\<lparr>partitions := parts, strategy := strat\<rparr>)
        else if partitions dri = [] then (True, dri)
        else (True, dri\<lparr>partitions := list_intersection_int (partitions dri) parts\<rparr>))"

definition dimension_restrict_info_add ::
  "('p \<Rightarrow> 'd \<Rightarrow> int32) \<Rightarrow> ('d \<Rightarrow> Oid \<Rightarrow> int64) \<Rightarrow> 'p DimensionRestrictInfo \<Rightarrow> int32
     \<Rightarrow> 'd DimensionValues \<Rightarrow> bool \<times> 'p DimensionRestrictInfo" where
  "dimension_restrict_info_add pfa tvi dri strat vals =
     (case dri of
        Open odri \<Rightarrow>
          map_prod id Open (dimension_restrict_info_open_add tvi odri (ucast strat) vals)
      | Closed cdri \<Rightarrow>
          map_prod id Closed (dimension_restrict_info_closed_add pfa cdri (ucast strat) vals))"

subsection \<open>Values of a clause\<close>

text \<open>
  The array constant of a \<^verbatim>\<open>ScalarArrayOpExpr\<close>: its type and its elements in order, a NULL
  element being \<open>None\<close>. \<^verbatim>\<open>get_element_type\<close> is PostgreSQL's; it is the parameter
  \<open>get_element_type\<close>.
\<close>

record 'd ArrayConst =
  consttype :: Oid
  elements :: "'d option list"

record 'd Const =
  const_type :: Oid
  constvalue :: 'd

definition dimension_values_create :: "'d list \<Rightarrow> Oid \<Rightarrow> bool \<Rightarrow> 'd DimensionValues" where
  "dimension_values_create vals ty user_or = \<lparr>dv_values = vals, use_or = user_or, dv_type = ty\<rparr>"

definition dimension_values_create_from_array ::
  "(Oid \<Rightarrow> Oid) \<Rightarrow> 'd ArrayConst \<Rightarrow> bool \<Rightarrow> error + 'd DimensionValues" where
  "dimension_values_create_from_array get_element_type c user_or =
     (let vals = foldl (\<lambda>acc elem. case elem of None \<Rightarrow> acc | Some e \<Rightarrow> acc @ [e])
                   [] (elements c);
          base_el_type = get_element_type (consttype c)
      in if base_el_type = InvalidOid then Inl NoBaseElementType
         else Inr (dimension_values_create vals base_el_type user_or))"

definition dimension_values_create_from_single_element ::
  "'d Const \<Rightarrow> bool \<Rightarrow> 'd DimensionValues" where
  "dimension_values_create_from_single_element c user_or =
     dimension_values_create [constvalue c] (const_type c) user_or"

subsection \<open>Slices of a dimension\<close>

text \<open>
  \<^verbatim>\<open>dimension_slice_scan_range_limit\<close> reads the catalog; it is the parameter \<open>scan\<close>, with
  the arguments in the order of the C call: dimension id, start strategy and value, end
  strategy and value, limit. A \<^verbatim>\<open>DimensionVec\<close> is the list of its slices, \<^verbatim>\<open>num_slices\<close>
  its length.
\<close>

type_synonym 's slice_scan =
  "int32 \<Rightarrow> StrategyNumber \<Rightarrow> int64 \<Rightarrow> StrategyNumber \<Rightarrow> int64 \<Rightarrow> int \<Rightarrow> 's list"

definition dimension_restrict_info_open_slices ::
  "'s slice_scan \<Rightarrow> 'p DimensionRestrictInfoOpen \<Rightarrow> 's list" where
  "dimension_restrict_info_open_slices scan dri =
     scan (fd_id (open_dimension dri)) (upper_strategy dri) (upper_bound dri)
       (lower_strategy dri) (lower_bound dri) 0"

text \<open>
  Modelled from the spec: \<^verbatim>\<open>dimension_vec_add_unique_slice\<close> is defined in
  \<^verbatim>\<open>dimension_vector.c\<close>, which is not among the sources; section 4.4 of the
  specification says that the slices found for the partitions are united without duplicates.
\<close>

definition dimension_vec_add_unique_slice :: "'s list \<Rightarrow> 's \<Rightarrow> 's list" where
  "dimension_vec_add_unique_slice vec sl = (if sl \<in> set vec then vec else vec @ [sl])"

definition dimension_restrict_info_closed_slices ::
  "'s slice_scan \<Rightarrow> 'p DimensionRestrictInfoClosed \<Rightarrow> 's list" where
  "dimension_restrict_info_closed_slices scan dri =
     (if strategy dri = BTEqualStrategyNumber then
        foldl (\<lambda>dim_vec partition.
                 foldl dimension_vec_add_unique_slice dim_vec
                   (scan (fd_id (closed_dimension dri))
                      BTLessEqualStrategyNumber (scast partition)
                      BTGreaterEqualStrategyNumber (scast partition) 0))
          [] (partitions dri)
      else scan (fd_id (closed_dimension dri)) InvalidStrategy (- 1) InvalidStrategy (- 1) 0)"

fun dimension_restrict_info_slices ::
  "'s slice_scan \<Rightarrow> 'p DimensionRestrictInfo \<Rightarrow> 's list" where
  "dimension_restrict_info_slices scan (Open dri) = dimension_restrict_info_open_slices scan dri"
| "dimension_restrict_info_slices scan (Closed dri) =
     dimension_restrict_info_closed_slices scan dri"

subsection \<open>The restrictions of a hypertable\<close>

text \<open>
  \<^verbatim>\<open>num_dimensions\<close> is the length of the array \<^verbatim>\<open>dimension_restriction\<close>.
\<close>

record 'p HypertableRestrictInfo =
  num_base_restrictions :: int
  dimension_restriction :: "'p DimensionRestrictInfo list"

definition num_dimensions :: "'p HypertableRestrictInfo \<Rightarrow> nat" where
  "num_dimensions hri = length (dimension_restriction hri)"

fun hypertable_restrict_info_create_loop ::
  "int64 \<Rightarrow> int64 \<Rightarrow> 'p Dimension list \<Rightarrow> error + 'p DimensionRestrictInfo list" where
  "hypertable_restrict_info_create_loop lb0 ub0 [] = Inr []"
| "hypertable_restrict_info_create_loop lb0 ub0 (d # ds) =
     (case dimension_restrict_info_create lb0 ub0 d of
        Inl e \<Rightarrow> Inl e
      | Inr dri \<Rightarrow>
          (case hypertable_restrict_info_create_loop lb0 ub0 ds of
             Inl e \<Rightarrow> Inl e
           | Inr dris \<Rightarrow> Inr (dri # dris)))"

definition hypertable_restrict_info_create ::
  "int64 \<Rightarrow> int64 \<Rightarrow> 'p Dimension list \<Rightarrow> error + 'p HypertableRestrictInfo" where
  "hypertable_restrict_info_create lb0 ub0 dims =
     (case hypertable_restrict_info_create_loop lb0 ub0 dims of
        Inl e \<Rightarrow> Inl e
      | Inr dris \<Rightarrow> Inr \<lparr>num_base_restrictions = 0, dimension_restriction = dris\<rparr>)"

definition hypertable_restrict_info_has_restrictions :: "'p HypertableRestrictInfo \<Rightarrow> bool" where
  "hypertable_restrict_info_has_restrictions hri = (num_base_restrictions hri > 0)"

text \<open>
  The loop of \<^verbatim>\<open>hypertable_restrict_info_get_chunk_oids\<close> over the dimensions still to be
  visited, with the vectors collected so far: \<open>None\<close> is the \<^verbatim>\<open>return NIL\<close> inside the loop,
  taken at the first dimension without a slice.
\<close>

fun get_chunk_oids_loop ::
  "'s slice_scan \<Rightarrow> 'p DimensionRestrictInfo list \<Rightarrow> 's list list \<Rightarrow> 's list list option" where
  "get_chunk_oids_loop scan [] dimension_vecs = Some dimension_vecs"
| "get_chunk_oids_loop scan (dri # rest) dimension_vecs =
     (let dv = dimension_restrict_info_slices scan dri in
      if length dv = 0 then None
      else get_chunk_oids_loop scan rest (dimension_vecs @ [dv]))"

text \<open>
  \<^verbatim>\<open>chunk_find_all_oids\<close> is the parameter \<open>chunk_find_all_oids\<close>; \<open>space\<close> stands for
  \<^verbatim>\<open>ht->space\<close>.
\<close>

definition hypertable_restrict_info_get_chunk_oids ::
  "'s slice_scan \<Rightarrow> ('h \<Rightarrow> 's list list \<Rightarrow> 'l \<Rightarrow> 'c list) \<Rightarrow> 'p HypertableRestrictInfo
     \<Rightarrow> 'h \<Rightarrow> 'l \<Rightarrow> 'c list" where
  "hypertable_restrict_info_get_chunk_oids scan chunk_find_all_oids hri space lockmode =
     (case get_chunk_oids_loop scan (dimension_restriction hri) [] of
        None \<Rightarrow> []
      | Some dimension_vecs \<Rightarrow> chunk_find_all_oids space dimension_vecs lockmode)"

subsection \<open>Sequences of calls, and the notions the properties speak of\<close>

text \<open>
  The restriction left by a sequence of \<^verbatim>\<open>dimension_restrict_info_closed_add\<close> calls on one
  accumulator, each call with its strategy and its values.
\<close>

definition closed_add_calls ::
  "('p \<Rightarrow> 'd \<Rightarrow> int32) \<Rightarrow> 'p DimensionRestrictInfoClosed
     \<Rightarrow> (StrategyNumber \<times> 'd DimensionValues) list \<Rightarrow> 'p DimensionRestrictInfoClosed" where
  "closed_add_calls pfa dri calls =
     foldl (\<lambda>d call. snd (dimension_restrict_info_closed_add pfa d (fst call) (snd call)))
       dri calls"

text \<open>
  The state the code sets on a contradiction: the equality strategy with no partition.
\<close>

definition explicitly_empty :: "'p DimensionRestrictInfoClosed \<Rightarrow> bool" where
  "explicitly_empty dri = (strategy dri = BTEqualStrategyNumber \<and> partitions dri = [])"

text \<open>
  What one equality clause says about the partition of a matching row, as
  \<^verbatim>\<open>dimension_restrict_info_closed_add\<close> reads it: nothing is possible when the clause is a
  conjunction over more than one partition, else the partitions of its values.
\<close>

definition contradictory ::
  "('p \<Rightarrow> 'd \<Rightarrow> int32) \<Rightarrow> 'p DimensionRestrictInfoClosed \<Rightarrow> 'd DimensionValues \<Rightarrow> bool" where
  "contradictory pfa dri dv =
     (length (dimension_restrict_info_get_partitions pfa dri (dv_values dv)) > 1 \<and> \<not> use_or dv)"

definition clause_partitions ::
  "('p \<Rightarrow> 'd \<Rightarrow> int32) \<Rightarrow> 'p DimensionRestrictInfoClosed \<Rightarrow> 'd DimensionValues \<Rightarrow> int32 set" where
  "clause_partitions pfa dri dv =
     (if contradictory pfa dri dv then {}
      else set (dimension_restrict_info_get_partitions pfa dri (dv_values dv)))"

text \<open>
  The restriction left by a sequence of \<^verbatim>\<open>dimension_restrict_info_open_add\<close> calls on one
  accumulator.
\<close>

definition open_add_calls ::
  "('d \<Rightarrow> Oid \<Rightarrow> int64) \<Rightarrow> 'p DimensionRestrictInfoOpen
     \<Rightarrow> (StrategyNumber \<times> 'd DimensionValues) list \<Rightarrow> 'p DimensionRestrictInfoOpen" where
  "open_add_calls tvi dri calls =
     foldl (\<lambda>d call. snd (dimension_restrict_info_open_add tvi d (fst call) (snd call)))
       dri calls"

text \<open>
  The interval of \<open>new\<close> is not wider than that of \<open>old\<close>: a bound that \<open>old\<close> has set
  is still set in \<open>new\<close>, the upper one not above and the lower one not below where it was.
  A bound is unset, that is unbounded, while its strategy is \<^verbatim>\<open>InvalidStrategy\<close>.
\<close>

definition never_widened ::
  "'p DimensionRestrictInfoOpen \<Rightarrow> 'p DimensionRestrictInfoOpen \<Rightarrow> bool" where
  "never_widened old new =
     ((upper_strategy old \<noteq> InvalidStrategy \<longrightarrow>
         upper_strategy new \<noteq> InvalidStrategy \<and> upper_bound new \<le>s upper_bound old)
      \<and> (lower_strategy old \<noteq> InvalidStrategy \<longrightarrow>
         lower_strategy new \<noteq> InvalidStrategy \<and> lower_bound old \<le>s lower_bound new))"

text \<open>The value \<open>v\<close> lies between the bounds that \<open>dri\<close> has set.\<close>

definition within_bounds :: "'p DimensionRestrictInfoOpen \<Rightarrow> int64 \<Rightarrow> bool" where
  "within_bounds dri v =
     ((upper_strategy dri \<noteq> InvalidStrategy \<longrightarrow> v \<le>s upper_bound dri)
      \<and> (lower_strategy dri \<noteq> InvalidStrategy \<longrightarrow> lower_bound dri \<le>s v))"

subsection \<open>Rows and the catalog\<close>

text \<open>
  Modelled from the spec: whether a row satisfies a clause is decided by the executor, which
  is not among the sources. By sections 4.1 and 4.3 of the specification a clause with
  \<^verbatim>\<open>use_or\<close> is a membership of the ANY kind, a disjunction over its values, and one
  without asserts the comparison for all of its values (ALL), a conjunction; over no value
  the disjunction is false and the conjunction true. \<open>holds x v\<close> is the comparison of
  the row's column value \<open>x\<close> with the value \<open>v\<close>. The values are the elements of the
  array that are not NULL: for an array with a NULL element SQL's ALL is never true, so that
  the conjunction over the other elements still holds for every row that satisfies the
  clause.
\<close>

definition clause_satisfied :: "('d \<Rightarrow> 'd \<Rightarrow> bool) \<Rightarrow> 'd DimensionValues \<Rightarrow> 'd \<Rightarrow> bool" where
  "clause_satisfied holds dv x =
     (if use_or dv then list_ex (holds x) (dv_values dv) else list_all (holds x) (dv_values dv))"

text \<open>
  Modelled from the spec: a stored slice (section 3 of the specification: an interval
  \<^verbatim>\<open>[start, end)\<close> of one dimension); \<^verbatim>\<open>dimension_slice.h\<close> is not among the sources.
\<close>

record DimensionSlice =
  slice_id :: int32
  dimension_id :: int32
  range_start :: int64
  range_end :: int64

text \<open>The comparison a B-tree strategy stands for; none for \<^verbatim>\<open>InvalidStrategy\<close>.\<close>

definition strategy_holds :: "StrategyNumber \<Rightarrow> int64 \<Rightarrow> int64 \<Rightarrow> bool" where
  "strategy_holds strat a b =
     (if strat = BTLessStrategyNumber then a <s b
      else if strat = BTLessEqualStrategyNumber then a \<le>s b
      else if strat = BTEqualStrategyNumber then a = b
      else if strat = BTGreaterEqualStrategyNumber then b \<le>s a
      else if strat = BTGreaterStrategyNumber then b <s a
      else True)"

text \<open>
  Modelled from the spec: \<^verbatim>\<open>dimension_slice_scan_range_limit\<close> is defined in
  \<^verbatim>\<open>dimension_slice.c\<close>, which is not among the sources. By section 6 of the
  specification it takes the dimension id, an optional bound with its strategy for each
  end and a limit, and returns the slices of the dimension within the bounds. The first
  strategy and value are for \<^verbatim>\<open>range_start\<close>, the second for \<^verbatim>\<open>range_end\<close>, as the
  comment at the call for a partition says (\<^verbatim>\<open>slice_end >= value && slice_start <= value\<close>
  for the strategies \<^verbatim>\<open><=\<close> and \<^verbatim>\<open>>=\<close>); the limit 0 is no limit. \<open>catalog\<close> holds the
  stored slices.
\<close>

definition dimension_slice_scan_range_limit :: "DimensionSlice list \<Rightarrow> DimensionSlice slice_scan" where
  "dimension_slice_scan_range_limit catalog dim_id start_strategy start_value
       end_strategy end_value limit =
     (let found = filter (\<lambda>sl. dimension_id sl = dim_id
                           \<and> strategy_holds start_strategy (range_start sl) start_value
                           \<and> strategy_holds end_strategy (range_end sl) end_value) catalog
      in if limit > 0 then take (nat limit) found else found)"

text \<open>
  Modelled from the spec: a chunk has one slice per dimension (glossary), and
  \<^verbatim>\<open>chunk_find_all_oids\<close>, defined in \<^verbatim>\<open>chunk.c\<close> which is not among the sources, returns
  the chunks whose slice is among the candidates in every dimension (section 4.5).
\<close>

record Chunk =
  table_id :: Oid
  cube :: "DimensionSlice list"

definition chunk_find_all_oids :: "Chunk list \<Rightarrow> DimensionSlice list list \<Rightarrow> unit \<Rightarrow> Oid list" where
  "chunk_find_all_oids space dimension_vecs lockmode =
     map table_id (filter (\<lambda>c. list_all2 (\<lambda>sl vec. sl \<in> set vec) (cube c) dimension_vecs) space)"

text \<open>
  What a restriction lets through, as its slice resolver reads it. A closed restriction
  admits a partition when it has no equality strategy or lists the partition; an open one
  admits a time when the time meets both bounds. The strategies an open restriction can
  hold are those the add function stores.
\<close>

definition closed_admits :: "'p DimensionRestrictInfoClosed \<Rightarrow> int32 \<Rightarrow> bool" where
  "closed_admits dri part =
     (strategy dri = BTEqualStrategyNumber \<longrightarrow> part \<in> set (partitions dri))"

definition open_admits :: "'p DimensionRestrictInfoOpen \<Rightarrow> int64 \<Rightarrow> bool" where
  "open_admits dri t =
     (strategy_holds (upper_strategy dri) t (upper_bound dri)
      \<and> strategy_holds (lower_strategy dri) t (lower_bound dri))"

definition open_strategies_ok :: "'p DimensionRestrictInfoOpen \<Rightarrow> bool" where
  "open_strategies_ok dri =
     (upper_strategy dri \<in> {InvalidStrategy, BTLessStrategyNumber, BTLessEqualStrategyNumber}
      \<and> lower_strategy dri \<in>
          {InvalidStrategy, BTGreaterEqualStrategyNumber, BTGreaterStrategyNumber})"

text \<open>
  An equality clause agrees with an open restriction when the restriction admits each of its
  values, a strict bound excluding the bound itself; a call that is no equality clause
  always agrees. A sequence of calls agrees when each call agrees with the restriction it
  meets.
\<close>

definition equality_admitted ::
  "('d \<Rightarrow> Oid \<Rightarrow> int64) \<Rightarrow> 'p DimensionRestrictInfoOpen
     \<Rightarrow> StrategyNumber \<times> 'd DimensionValues \<Rightarrow> bool" where
  "equality_admitted tvi dri call =
     (fst call = BTEqualStrategyNumber \<longrightarrow>
        list_all (\<lambda>item. open_admits dri (tvi item (dv_type (snd call))))
          (dv_values (snd call)))"

fun equalities_admitted ::
  "('d \<Rightarrow> Oid \<Rightarrow> int64) \<Rightarrow> 'p DimensionRestrictInfoOpen
     \<Rightarrow> (StrategyNumber \<times> 'd DimensionValues) list \<Rightarrow> bool" where
  "equalities_admitted tvi dri [] = True"
| "equalities_admitted tvi dri (call # calls) =
     (equality_admitted tvi dri call
      \<and> equalities_admitted tvi
          (snd (dimension_restrict_info_open_add tvi dri (fst call) (snd call))) calls)"

subsection \<open>Scenarios\<close>

text \<open>
  The hypertable of the scenarios: a time dimension on column 1 and a device dimension on
  column 2 with four partitions, where the devices \<open>a\<close> and \<open>b\<close> fall into partition 2 and
  \<open>c\<close> into partition 3. Time values are integers (\<^verbatim>\<open>INT8OID\<close> is 20), device names are
  text (\<^verbatim>\<open>TEXTOID\<close> is 25); the array types of the two are 1016 and 1009.
\<close>

definition time_dimension :: "nat Dimension" where
  "time_dimension =
     \<lparr>fd_id = 1, dim_type = DIMENSION_TYPE_OPEN, column_attno = 1, partitioning = 0\<rparr>"

definition device_dimension :: "nat Dimension" where
  "device_dimension =
     \<lparr>fd_id = 2, dim_type = DIMENSION_TYPE_CLOSED, column_attno = 2, partitioning = 4\<rparr>"

definition device_partition :: "nat \<Rightarrow> string \<Rightarrow> int32" where
  "device_partition n dev =
     (if dev = ''a'' \<or> dev = ''b'' then 2 else if dev = ''c'' then 3 else 1)"

definition time_internal :: "int \<Rightarrow> Oid \<Rightarrow> int64" where
  "time_internal t ty = word_of_int t"

definition element_type_of :: "Oid \<Rightarrow> Oid" where
  "element_type_of ty = (if ty = 1009 then 25 else if ty = 1016 then 20 else InvalidOid)"

definition device_is :: "string \<Rightarrow> string DimensionValues" where
  "device_is dev = \<lparr>dv_values = [dev], use_or = False, dv_type = 25\<rparr>"

definition time_is :: "int \<Rightarrow> int DimensionValues" where
  "time_is t = \<lparr>dv_values = [t], use_or = False, dv_type = 20\<rparr>"

text \<open>
  Two time slices and two device slices, and the four chunks they span.
\<close>

definition device_slices :: "DimensionSlice list" where
  "device_slices =
     [\<lparr>slice_id = 3, dimension_id = 2, range_start = 0, range_end = 3\<rparr>,
      \<lparr>slice_id = 4, dimension_id = 2, range_start = 3, range_end = 5\<rparr>]"

definition time_slices :: "DimensionSlice list" where
  "time_slices =
     [\<lparr>slice_id = 1, dimension_id = 1, range_start = 0, range_end = 100\<rparr>,
      \<lparr>slice_id = 2, dimension_id = 1, range_start = 100, range_end = 200\<rparr>]"

definition all_chunks :: "Chunk list" where
  "all_chunks =
     [\<lparr>table_id = 1001, cube = [time_slices ! 0, device_slices ! 0]\<rparr>,
      \<lparr>table_id = 1002, cube = [time_slices ! 0, device_slices ! 1]\<rparr>,
      \<lparr>table_id = 1003, cube = [time_slices ! 1, device_slices ! 0]\<rparr>,
      \<lparr>table_id = 1004, cube = [time_slices ! 1, device_slices ! 1]\<rparr>]"

subsection \<open>Theorems\<close>

lemmas strategy_defs =
  InvalidStrategy_def BTLessStrategyNumber_def BTLessEqualStrategyNumber_def
  BTEqualStrategyNumber_def BTGreaterEqualStrategyNumber_def BTGreaterStrategyNumber_def

lemma strategy_distinct [simp]:
  "BTEqualStrategyNumber \<noteq> InvalidStrategy"
  "BTEqualStrategyNumber \<noteq> BTLessStrategyNumber"
  "BTEqualStrategyNumber \<noteq> BTLessEqualStrategyNumber"
  "BTEqualStrategyNumber \<noteq> BTGreaterEqualStrategyNumber"
  "BTEqualStrategyNumber \<noteq> BTGreaterStrategyNumber"
  "BTLessEqualStrategyNumber \<noteq> InvalidStrategy"
  "BTGreaterEqualStrategyNumber \<noteq> InvalidStrategy"
  "BTLessStrategyNumber \<noteq> InvalidStrategy"
  "BTGreaterStrategyNumber \<noteq> InvalidStrategy"
  by (simp_all add: strategy_defs)

text \<open>
  C8. An open-dimension add with \<^verbatim>\<open>use_or\<close> set and more than one value is refused: it
  returns false and the restriction (bounds and strategies) is the one it was given.
\<close>

theorem open_add_rejects_or_of_many:
  assumes "use_or dimValues" and "length (dv_values dimValues) > 1"
  shows "dimension_restrict_info_open_add tvi dri strat dimValues = (False, dri)"
  using assms by (simp add: dimension_restrict_info_open_add_def)

theorem open_add_rejects_or_of_many_witness:
  "use_or \<lparr>dv_values = [100, 200], use_or = True, dv_type = 20\<rparr>
   \<and> length (dv_values \<lparr>dv_values = [100, 200 :: int], use_or = True, dv_type = 20\<rparr>) > 1
   \<and> dimension_restrict_info_open_add time_internal
         (dimension_restrict_info_open_create 0 0 time_dimension) BTEqualStrategyNumber
         \<lparr>dv_values = [100, 200], use_or = True, dv_type = 20\<rparr>
       = (False, dimension_restrict_info_open_create 0 0 time_dimension)"
  using open_add_rejects_or_of_many
    [of "\<lparr>dv_values = [100, 200 :: int], use_or = True, dv_type = 20\<rparr>" time_internal
        "dimension_restrict_info_open_create 0 0 time_dimension" BTEqualStrategyNumber]
  by simp

text \<open>
  C9. A closed-dimension add with a strategy other than equality returns false and leaves
  the restriction (partitions and strategy) as it was, whatever it was.
\<close>

theorem closed_add_rejects_other_strategies:
  assumes "strat \<noteq> BTEqualStrategyNumber"
  shows "dimension_restrict_info_closed_add pfa dri strat dimValues = (False, dri)"
  using assms by (simp add: dimension_restrict_info_closed_add_def)

theorem closed_add_rejects_other_strategies_witness:
  "BTLessStrategyNumber \<noteq> BTEqualStrategyNumber
   \<and> dimension_restrict_info_closed_add device_partition
         (dimension_restrict_info_closed_create device_dimension) BTLessStrategyNumber
         (device_is ''a'')
       = (False, dimension_restrict_info_closed_create device_dimension)"
  using closed_add_rejects_other_strategies
    [of BTLessStrategyNumber device_partition
        "dimension_restrict_info_closed_create device_dimension" "device_is ''a''"]
  by (simp add: strategy_defs)

text \<open>
  C6. An open-dimension add with the equality strategy and one value sets both bounds to the
  (internal) value, the lower strategy to \<^verbatim>\<open>>=\<close> and the upper strategy to \<^verbatim>\<open><=\<close>,
  whatever the restriction held before, and returns true.
\<close>

theorem open_add_equality_overwrites:
  "dimension_restrict_info_open_add tvi dri BTEqualStrategyNumber
     \<lparr>dv_values = [d], use_or = u, dv_type = ty\<rparr> =
   (True, dri\<lparr>lower_bound := tvi d ty, upper_bound := tvi d ty,
              lower_strategy := BTGreaterEqualStrategyNumber,
              upper_strategy := BTLessEqualStrategyNumber\<rparr>)"
  by (simp add: dimension_restrict_info_open_add_def open_add_value_def)

subsection \<open>Facts about the closed accumulator\<close>

lemma created_closed_unrestricted:
  assumes "dimension_restrict_info_create lb0 ub0 d = Inr (Closed dri)"
  shows "strategy dri = InvalidStrategy \<and> partitions dri = []"
  using assms
  by (auto simp: dimension_restrict_info_create_def dimension_restrict_info_closed_create_def
      split: DimensionType.splits)

lemma explicitly_empty_add:
  assumes "explicitly_empty dri"
  shows "snd (dimension_restrict_info_closed_add pfa dri strat dimValues) = dri"
  using assms
  by (cases dri) (simp add: dimension_restrict_info_closed_add_def explicitly_empty_def Let_def)

lemma explicitly_empty_add_calls:
  "explicitly_empty dri \<Longrightarrow> closed_add_calls pfa dri calls = dri"
  by (induction calls arbitrary: dri) (simp_all add: closed_add_calls_def explicitly_empty_add)

lemma explicitly_empty_slices:
  "explicitly_empty dri \<Longrightarrow> dimension_restrict_info_closed_slices scan dri = []"
  by (simp add: explicitly_empty_def dimension_restrict_info_closed_slices_def)

lemma loop_None_if_empty:
  assumes "dimension_restrict_info_slices scan d = []"
  shows "get_chunk_oids_loop scan (pre @ d # post) vecs = None"
  using assms by (induction pre arbitrary: vecs) (simp_all add: Let_def)

lemma get_chunk_oids_empty_member:
  assumes "d \<in> set (dimension_restriction hri)"
    and "dimension_restrict_info_slices scan d = []"
  shows "hypertable_restrict_info_get_chunk_oids scan find_oids hri space lockmode = []"
proof -
  from assms(1) obtain pre post where "dimension_restriction hri = pre @ d # post"
    by (auto simp: in_set_conv_decomp)
  then show ?thesis
    using loop_None_if_empty [OF assms(2)]
    by (simp add: hypertable_restrict_info_get_chunk_oids_def)
qed

lemma get_partitions_set_aux:
  "set (foldl (\<lambda>parts item. list_append_unique_int parts (f item)) acc vals) = set acc \<union> f ` set vals"
  by (induction vals arbitrary: acc) (auto simp: list_append_unique_int_def)

lemma get_partitions_distinct_aux:
  "distinct acc \<Longrightarrow> distinct (foldl (\<lambda>parts item. list_append_unique_int parts (f item)) acc vals)"
  by (induction vals arbitrary: acc) (auto simp: list_append_unique_int_def)

lemma get_partitions_set:
  "set (dimension_restrict_info_get_partitions pfa dri vals) =
     pfa (partitioning (closed_dimension dri)) ` set vals"
  by (simp add: dimension_restrict_info_get_partitions_def get_partitions_set_aux)

lemma get_partitions_distinct:
  "distinct (dimension_restrict_info_get_partitions pfa dri vals)"
  by (simp add: dimension_restrict_info_get_partitions_def get_partitions_distinct_aux)

lemma get_partitions_length:
  "length (dimension_restrict_info_get_partitions pfa dri vals) =
     card (pfa (partitioning (closed_dimension dri)) ` set vals)"
  using distinct_card [OF get_partitions_distinct, of pfa dri vals]
  by (simp add: get_partitions_set)

lemma set_list_intersection_int [simp]:
  "set (list_intersection_int xs ys) = set xs \<inter> set ys"
  by (auto simp: list_intersection_int_def)

lemma closed_add_dimension [simp]:
  "closed_dimension (snd (dimension_restrict_info_closed_add pfa dri strat dv)) = closed_dimension dri"
  by (simp add: dimension_restrict_info_closed_add_def Let_def)

lemma get_partitions_cong:
  "closed_dimension dri' = closed_dimension dri \<Longrightarrow>
   dimension_restrict_info_get_partitions pfa dri' vals =
   dimension_restrict_info_get_partitions pfa dri vals"
  by (simp add: dimension_restrict_info_get_partitions_def)

lemma contradictory_cong:
  "closed_dimension dri' = closed_dimension dri \<Longrightarrow>
   contradictory pfa dri' dv = contradictory pfa dri dv"
  using get_partitions_cong [of dri' dri pfa "dv_values dv"] by (simp add: contradictory_def)

lemma clause_partitions_cong:
  "closed_dimension dri' = closed_dimension dri \<Longrightarrow>
   clause_partitions pfa dri' dv = clause_partitions pfa dri dv"
  using get_partitions_cong [of dri' dri pfa "dv_values dv"] contradictory_cong [of dri' dri pfa dv]
  by (simp add: clause_partitions_def)

lemma closed_add_equal_set:
  "set (partitions (snd (dimension_restrict_info_closed_add pfa dri BTEqualStrategyNumber dv))) =
     (if strategy dri = InvalidStrategy then clause_partitions pfa dri dv
      else set (partitions dri) \<inter> clause_partitions pfa dri dv)"
  by (simp add: dimension_restrict_info_closed_add_def clause_partitions_def contradictory_def
      Let_def)

lemma closed_add_equal_strategy:
  "strategy (snd (dimension_restrict_info_closed_add pfa dri BTEqualStrategyNumber dv)) =
     (if strategy dri = InvalidStrategy \<or> contradictory pfa dri dv then BTEqualStrategyNumber
      else strategy dri)"
  by (simp add: dimension_restrict_info_closed_add_def contradictory_def Let_def)

lemma closed_add_calls_Cons:
  "closed_add_calls pfa dri (c # cs) =
     closed_add_calls pfa (snd (dimension_restrict_info_closed_add pfa dri (fst c) (snd c))) cs"
  by (simp add: closed_add_calls_def)

lemma closed_add_calls_Nil [simp]: "closed_add_calls pfa dri [] = dri"
  by (simp add: closed_add_calls_def)

lemma equal_calls_restricted:
  assumes "strategy dri \<noteq> InvalidStrategy"
  shows "set (partitions (closed_add_calls pfa dri (map (Pair BTEqualStrategyNumber) cs))) =
           set (partitions dri) \<inter> (\<Inter>dv\<in>set cs. clause_partitions pfa dri dv)
         \<and> strategy (closed_add_calls pfa dri (map (Pair BTEqualStrategyNumber) cs)) =
           (if \<exists>dv\<in>set cs. contradictory pfa dri dv then BTEqualStrategyNumber
            else strategy dri)"
  using assms
proof (induction cs arbitrary: dri)
  case Nil
  then show ?case by simp
next
  case (Cons c cs)
  let ?d = "snd (dimension_restrict_info_closed_add pfa dri BTEqualStrategyNumber c)"
  have dim: "closed_dimension ?d = closed_dimension dri" by simp
  have ne: "strategy ?d \<noteq> InvalidStrategy"
    using Cons.prems by (simp add: closed_add_equal_strategy)
  have st: "strategy ?d = (if contradictory pfa dri c then BTEqualStrategyNumber else strategy dri)"
    using Cons.prems by (simp add: closed_add_equal_strategy)
  have ps: "set (partitions ?d) = set (partitions dri) \<inter> clause_partitions pfa dri c"
    using Cons.prems by (simp add: closed_add_equal_set)
  show ?case
    using Cons.IH [OF ne] st ps
    by (auto simp: closed_add_calls_Cons clause_partitions_cong [OF dim]
        contradictory_cong [OF dim])
qed

lemma equal_calls_first:
  assumes "strategy dri = InvalidStrategy" and "cs \<noteq> []"
  shows "set (partitions (closed_add_calls pfa dri (map (Pair BTEqualStrategyNumber) cs))) =
           (\<Inter>dv\<in>set cs. clause_partitions pfa dri dv)
         \<and> strategy (closed_add_calls pfa dri (map (Pair BTEqualStrategyNumber) cs)) =
           BTEqualStrategyNumber"
proof -
  from assms(2) obtain c cs' where cs: "cs = c # cs'" by (cases cs) auto
  let ?d = "snd (dimension_restrict_info_closed_add pfa dri BTEqualStrategyNumber c)"
  have dim: "closed_dimension ?d = closed_dimension dri" by simp
  have st: "strategy ?d = BTEqualStrategyNumber"
    using assms(1) by (simp add: closed_add_equal_strategy)
  then have ne: "strategy ?d \<noteq> InvalidStrategy" by simp
  have ps: "set (partitions ?d) = clause_partitions pfa dri c"
    using assms(1) by (simp add: closed_add_equal_set)
  show ?thesis
    using equal_calls_restricted [OF ne, of pfa cs'] st ps
    by (auto simp: cs closed_add_calls_Cons clause_partitions_cong [OF dim]
        contradictory_cong [OF dim])
qed

text \<open>
  C7. The set of partitions (and the strategy) a closed accumulator ends with after a
  collection of equality clauses does not depend on the order in which they are added.
\<close>

theorem closed_add_order_independent:
  assumes "mset cs = mset cs'"
  shows "set (partitions (closed_add_calls pfa dri (map (Pair BTEqualStrategyNumber) cs))) =
         set (partitions (closed_add_calls pfa dri (map (Pair BTEqualStrategyNumber) cs')))
       \<and> strategy (closed_add_calls pfa dri (map (Pair BTEqualStrategyNumber) cs)) =
         strategy (closed_add_calls pfa dri (map (Pair BTEqualStrategyNumber) cs'))"
proof -
  from assms have same: "set cs = set cs'" by (rule mset_eq_setD)
  then have nil: "cs = [] \<longleftrightarrow> cs' = []" by auto
  show ?thesis
  proof (cases "strategy dri = InvalidStrategy")
    case False
    then show ?thesis
      using equal_calls_restricted [of dri pfa cs] equal_calls_restricted [of dri pfa cs'] same
      by simp
  next
    case True
    show ?thesis
    proof (cases "cs = []")
      case True
      with nil show ?thesis by simp
    next
      case False
      with nil have "cs' \<noteq> []" by simp
      then show ?thesis
        using equal_calls_first [OF True False, of pfa] equal_calls_first [OF True, of cs' pfa] same
        by simp
    qed
  qed
qed

theorem closed_add_order_independent_witness:
  "mset [\<lparr>dv_values = [''a'', ''c''], use_or = True, dv_type = 25\<rparr>, device_is ''c''] =
   mset [device_is ''c'', \<lparr>dv_values = [''a'', ''c''], use_or = True, dv_type = 25\<rparr>]
   \<and> set (partitions (closed_add_calls device_partition
              (dimension_restrict_info_closed_create device_dimension)
              (map (Pair BTEqualStrategyNumber)
                 [\<lparr>dv_values = [''a'', ''c''], use_or = True, dv_type = 25\<rparr>,
                  device_is ''c'']))) =
       set (partitions (closed_add_calls device_partition
              (dimension_restrict_info_closed_create device_dimension)
              (map (Pair BTEqualStrategyNumber)
                 [device_is ''c'',
                  \<lparr>dv_values = [''a'', ''c''], use_or = True, dv_type = 25\<rparr>])))
   \<and> partitions (closed_add_calls device_partition
              (dimension_restrict_info_closed_create device_dimension)
              (map (Pair BTEqualStrategyNumber)
                 [\<lparr>dv_values = [''a'', ''c''], use_or = True, dv_type = 25\<rparr>,
                  device_is ''c''])) = [3]"
proof -
  have perm: "mset [\<lparr>dv_values = [''a'', ''c''], use_or = True, dv_type = 25\<rparr>, device_is ''c''] =
   mset [device_is ''c'', \<lparr>dv_values = [''a'', ''c''], use_or = True, dv_type = 25\<rparr>]"
    by simp
  have val: "partitions (closed_add_calls device_partition
              (dimension_restrict_info_closed_create device_dimension)
              (map (Pair BTEqualStrategyNumber)
                 [\<lparr>dv_values = [''a'', ''c''], use_or = True, dv_type = 25\<rparr>,
                  device_is ''c''])) = [3]"
    by (simp add: closed_add_calls_def dimension_restrict_info_closed_add_def
        dimension_restrict_info_get_partitions_def list_append_unique_int_def
        list_intersection_int_def dimension_restrict_info_closed_create_def
        device_partition_def device_is_def)
  from closed_add_order_independent [OF perm] perm val show ?thesis
    by blast
qed

text \<open>
  C4. A closed accumulator in the explicitly-empty state (equality strategy, no partition)
  is still explicitly empty after one more add call and after any sequence of add calls,
  and its slice resolver returns no slice.
\<close>

theorem explicitly_empty_stays:
  assumes "explicitly_empty dri"
  shows "explicitly_empty (snd (dimension_restrict_info_closed_add pfa dri strat dimValues))
       \<and> explicitly_empty (closed_add_calls pfa dri calls)
       \<and> dimension_restrict_info_closed_slices scan (closed_add_calls pfa dri calls) = []"
  using assms
  by (simp add: explicitly_empty_add explicitly_empty_add_calls explicitly_empty_slices)

theorem explicitly_empty_stays_witness:
  "explicitly_empty \<lparr>closed_dimension = device_dimension, partitions = [],
                     strategy = BTEqualStrategyNumber\<rparr>
   \<and> explicitly_empty (closed_add_calls device_partition
         \<lparr>closed_dimension = device_dimension, partitions = [],
          strategy = BTEqualStrategyNumber\<rparr>
         [(BTEqualStrategyNumber, device_is ''a''), (BTLessStrategyNumber, device_is ''c''),
          (BTEqualStrategyNumber, \<lparr>dv_values = [''a'', ''c''], use_or = True, dv_type = 25\<rparr>)])
   \<and> dimension_restrict_info_closed_slices
         (dimension_slice_scan_range_limit (time_slices @ device_slices))
         (closed_add_calls device_partition
            \<lparr>closed_dimension = device_dimension, partitions = [],
             strategy = BTEqualStrategyNumber\<rparr>
            [(BTEqualStrategyNumber, device_is ''a''), (BTLessStrategyNumber, device_is ''c''),
             (BTEqualStrategyNumber,
              \<lparr>dv_values = [''a'', ''c''], use_or = True, dv_type = 25\<rparr>)]) = []"
proof -
  have empty: "explicitly_empty \<lparr>closed_dimension = device_dimension, partitions = [],
                     strategy = BTEqualStrategyNumber\<rparr>"
    by (simp add: explicitly_empty_def)
  from explicitly_empty_stays [OF empty] empty show ?thesis
    by blast
qed

text \<open>
  C3. Whatever the state of a closed accumulator, an equality add without \<^verbatim>\<open>use_or\<close> whose
  values fall into more than one partition returns true and leaves the explicitly-empty
  state; whatever is added to the accumulator afterwards, a hypertable restriction that
  holds it yields no chunk.
\<close>

theorem closed_add_contradiction:
  assumes "1 < card (pfa (partitioning (closed_dimension dri)) ` set (dv_values dimValues))"
    and "\<not> use_or dimValues"
    and "Closed (closed_add_calls pfa
           (snd (dimension_restrict_info_closed_add pfa dri BTEqualStrategyNumber dimValues))
           later) \<in> set (dimension_restriction hri)"
  shows "dimension_restrict_info_closed_add pfa dri BTEqualStrategyNumber dimValues =
           (True, dri\<lparr>strategy := BTEqualStrategyNumber, partitions := []\<rparr>)
       \<and> explicitly_empty
           (snd (dimension_restrict_info_closed_add pfa dri BTEqualStrategyNumber dimValues))
       \<and> hypertable_restrict_info_get_chunk_oids scan find_oids hri space lockmode = []"
proof -
  let ?res = "dimension_restrict_info_closed_add pfa dri BTEqualStrategyNumber dimValues"
  have res: "?res = (True, dri\<lparr>strategy := BTEqualStrategyNumber, partitions := []\<rparr>)"
    using assms(1,2)
    by (simp add: dimension_restrict_info_closed_add_def get_partitions_length)
  then have empty: "explicitly_empty (snd ?res)"
    by (simp add: explicitly_empty_def)
  then have "dimension_restrict_info_slices scan (Closed (closed_add_calls pfa (snd ?res) later)) = []"
    by (simp add: explicitly_empty_add_calls explicitly_empty_slices)
  from get_chunk_oids_empty_member [OF assms(3) this] res empty show ?thesis
    by simp
qed

theorem closed_add_contradiction_witness:
  "1 < card (device_partition (partitioning (closed_dimension
         (dimension_restrict_info_closed_create device_dimension)))
       ` set (dv_values \<lparr>dv_values = [''a'', ''c''], use_or = False, dv_type = 25\<rparr>))
   \<and> \<not> use_or \<lparr>dv_values = [''a'', ''c''], use_or = False, dv_type = 25\<rparr>
   \<and> dimension_restrict_info_closed_add device_partition
         (dimension_restrict_info_closed_create device_dimension) BTEqualStrategyNumber
         \<lparr>dv_values = [''a'', ''c''], use_or = False, dv_type = 25\<rparr> =
       (True, \<lparr>closed_dimension = device_dimension, partitions = [],
               strategy = BTEqualStrategyNumber\<rparr>)
   \<and> hypertable_restrict_info_get_chunk_oids
         (dimension_slice_scan_range_limit (time_slices @ device_slices)) chunk_find_all_oids
         \<lparr>num_base_restrictions = 1,
          dimension_restriction =
            [Open (dimension_restrict_info_open_create 0 0 time_dimension),
             Closed (closed_add_calls device_partition
               (snd (dimension_restrict_info_closed_add device_partition
                  (dimension_restrict_info_closed_create device_dimension) BTEqualStrategyNumber
                  \<lparr>dv_values = [''a'', ''c''], use_or = False, dv_type = 25\<rparr>))
               [(BTEqualStrategyNumber, device_is ''a'')])]\<rparr>
         all_chunks () = []"
proof -
  let ?dv = "\<lparr>dv_values = [''a'', ''c''], use_or = False, dv_type = 25\<rparr>"
  let ?dri = "dimension_restrict_info_closed_create device_dimension"
  let ?later = "[(BTEqualStrategyNumber, device_is ''a'')]"
  let ?hri = "\<lparr>num_base_restrictions = 1,
          dimension_restriction =
            [Open (dimension_restrict_info_open_create 0 0 time_dimension),
             Closed (closed_add_calls device_partition
               (snd (dimension_restrict_info_closed_add device_partition ?dri
                  BTEqualStrategyNumber ?dv)) ?later)]\<rparr>"
  have two: "1 < card (device_partition (partitioning (closed_dimension ?dri))
       ` set (dv_values ?dv))"
    by (simp add: device_partition_def)
  have conj: "\<not> use_or ?dv"
    by simp
  have mem: "Closed (closed_add_calls device_partition
               (snd (dimension_restrict_info_closed_add device_partition ?dri
                  BTEqualStrategyNumber ?dv)) ?later) \<in> set (dimension_restriction ?hri)"
    by simp
  from closed_add_contradiction
      [where pfa = device_partition and dri = ?dri and dimValues = ?dv and later = ?later
         and hri = ?hri
         and scan = "dimension_slice_scan_range_limit (time_slices @ device_slices)"
         and find_oids = chunk_find_all_oids and space = all_chunks and lockmode = "()",
       OF two conj mem]
  have res: "dimension_restrict_info_closed_add device_partition ?dri BTEqualStrategyNumber ?dv =
           (True, ?dri\<lparr>strategy := BTEqualStrategyNumber, partitions := []\<rparr>)"
    and none: "hypertable_restrict_info_get_chunk_oids
         (dimension_slice_scan_range_limit (time_slices @ device_slices)) chunk_find_all_oids
         ?hri all_chunks () = []"
    by blast+
  show ?thesis
  proof (intro conjI)
    show "dimension_restrict_info_closed_add device_partition ?dri BTEqualStrategyNumber ?dv =
       (True, \<lparr>closed_dimension = device_dimension, partitions = [],
               strategy = BTEqualStrategyNumber\<rparr>)"
      using res by (simp add: dimension_restrict_info_closed_create_def)
  qed (rule two conj none)+
qed

lemma array_of_nulls_aux:
  "foldl (\<lambda>acc elem. case elem of None \<Rightarrow> acc | Some e \<Rightarrow> acc @ [e]) acc (replicate n None) = acc"
  by (induction n) simp_all

lemma values_of_null_array:
  "dimension_values_create_from_array get_element_type
     \<lparr>consttype = ty, elements = replicate n None\<rparr> user_or =
   (if get_element_type ty = InvalidOid then Inl NoBaseElementType
    else Inr \<lparr>dv_values = [], use_or = user_or, dv_type = get_element_type ty\<rparr>)"
  by (simp add: dimension_values_create_from_array_def dimension_values_create_def
      array_of_nulls_aux)

text \<open>
  C10. An equality add with no value (as the array of a clause gives when it has no element
  or only NULL elements) on a closed accumulator that has no restriction yet returns true
  and leaves the equality strategy with no partition, which is the explicitly-empty state;
  whatever is added afterwards, a hypertable restriction that holds the accumulator yields
  no chunk.
\<close>

theorem closed_add_first_empty_values:
  assumes "strategy dri = InvalidStrategy"
    and "dv_values dimValues = []"
    and "Closed (closed_add_calls pfa
           (snd (dimension_restrict_info_closed_add pfa dri BTEqualStrategyNumber dimValues))
           later) \<in> set (dimension_restriction hri)"
  shows "dimension_restrict_info_closed_add pfa dri BTEqualStrategyNumber dimValues =
           (True, dri\<lparr>partitions := [], strategy := BTEqualStrategyNumber\<rparr>)
       \<and> explicitly_empty
           (snd (dimension_restrict_info_closed_add pfa dri BTEqualStrategyNumber dimValues))
       \<and> hypertable_restrict_info_get_chunk_oids scan find_oids hri space lockmode = []
       \<and> dimension_values_create_from_array get_element_type
           \<lparr>consttype = ty, elements = replicate n None\<rparr> user_or =
           (if get_element_type ty = InvalidOid then Inl NoBaseElementType
            else Inr \<lparr>dv_values = [], use_or = user_or, dv_type = get_element_type ty\<rparr>)"
proof -
  let ?res = "dimension_restrict_info_closed_add pfa dri BTEqualStrategyNumber dimValues"
  have res: "?res = (True, dri\<lparr>partitions := [], strategy := BTEqualStrategyNumber\<rparr>)"
    using assms(1,2)
    by (simp add: dimension_restrict_info_closed_add_def
        dimension_restrict_info_get_partitions_def)
  then have empty: "explicitly_empty (snd ?res)"
    by (simp add: explicitly_empty_def)
  then have "dimension_restrict_info_slices scan (Closed (closed_add_calls pfa (snd ?res) later)) = []"
    by (simp add: explicitly_empty_add_calls explicitly_empty_slices)
  from get_chunk_oids_empty_member [OF assms(3) this] res empty show ?thesis
    by (simp add: values_of_null_array)
qed

theorem closed_add_first_empty_values_witness:
  "strategy (dimension_restrict_info_closed_create device_dimension) = InvalidStrategy
   \<and> dimension_values_create_from_array element_type_of
         \<lparr>consttype = 1009, elements = replicate 2 None\<rparr> True =
       Inr \<lparr>dv_values = ([] :: string list), use_or = True, dv_type = 25\<rparr>
   \<and> dimension_restrict_info_closed_add device_partition
         (dimension_restrict_info_closed_create device_dimension) BTEqualStrategyNumber
         \<lparr>dv_values = [], use_or = True, dv_type = 25\<rparr> =
       (True, \<lparr>closed_dimension = device_dimension, partitions = [],
               strategy = BTEqualStrategyNumber\<rparr>)
   \<and> hypertable_restrict_info_get_chunk_oids
         (dimension_slice_scan_range_limit (time_slices @ device_slices)) chunk_find_all_oids
         \<lparr>num_base_restrictions = 1,
          dimension_restriction =
            [Open (dimension_restrict_info_open_create 0 0 time_dimension),
             Closed (closed_add_calls device_partition
               (snd (dimension_restrict_info_closed_add device_partition
                  (dimension_restrict_info_closed_create device_dimension) BTEqualStrategyNumber
                  \<lparr>dv_values = [], use_or = True, dv_type = 25\<rparr>))
               [(BTEqualStrategyNumber, device_is ''a'')])]\<rparr>
         all_chunks () = []"
proof -
  let ?dv = "\<lparr>dv_values = ([] :: string list), use_or = True, dv_type = 25\<rparr>"
  let ?dri = "dimension_restrict_info_closed_create device_dimension"
  let ?later = "[(BTEqualStrategyNumber, device_is ''a'')]"
  let ?hri = "\<lparr>num_base_restrictions = 1,
          dimension_restriction =
            [Open (dimension_restrict_info_open_create 0 0 time_dimension),
             Closed (closed_add_calls device_partition
               (snd (dimension_restrict_info_closed_add device_partition ?dri
                  BTEqualStrategyNumber ?dv)) ?later)]\<rparr>"
  have first: "strategy ?dri = InvalidStrategy"
    by (simp add: dimension_restrict_info_closed_create_def)
  have none: "dv_values ?dv = []"
    by simp
  have mem: "Closed (closed_add_calls device_partition
               (snd (dimension_restrict_info_closed_add device_partition ?dri
                  BTEqualStrategyNumber ?dv)) ?later) \<in> set (dimension_restriction ?hri)"
    by simp
  from closed_add_first_empty_values
      [where pfa = device_partition and dri = ?dri and dimValues = ?dv and later = ?later
         and hri = ?hri
         and scan = "dimension_slice_scan_range_limit (time_slices @ device_slices)"
         and find_oids = chunk_find_all_oids and space = all_chunks and lockmode = "()"
         and get_element_type = element_type_of and ty = 1009 and n = 2 and user_or = True,
       OF first none mem]
  have res: "dimension_restrict_info_closed_add device_partition ?dri BTEqualStrategyNumber ?dv =
           (True, ?dri\<lparr>partitions := [], strategy := BTEqualStrategyNumber\<rparr>)"
    and chunks: "hypertable_restrict_info_get_chunk_oids
         (dimension_slice_scan_range_limit (time_slices @ device_slices)) chunk_find_all_oids
         ?hri all_chunks () = []"
    and array: "dimension_values_create_from_array element_type_of
         \<lparr>consttype = 1009, elements = replicate 2 None\<rparr> True =
       (if element_type_of 1009 = InvalidOid then Inl NoBaseElementType
        else Inr \<lparr>dv_values = ([] :: string list), use_or = True,
                 dv_type = element_type_of 1009\<rparr>)"
    by blast+
  show ?thesis
  proof (intro conjI)
    show "dimension_restrict_info_closed_add device_partition ?dri BTEqualStrategyNumber ?dv =
       (True, \<lparr>closed_dimension = device_dimension, partitions = [],
               strategy = BTEqualStrategyNumber\<rparr>)"
      using res by (simp add: dimension_restrict_info_closed_create_def)
    show "dimension_values_create_from_array element_type_of
         \<lparr>consttype = 1009, elements = replicate 2 None\<rparr> True =
       Inr \<lparr>dv_values = ([] :: string list), use_or = True, dv_type = 25\<rparr>"
      using array by (simp add: InvalidOid_def element_type_of_def)
  qed (rule first chunks)+
qed

text \<open>
  C2. When the slice resolver of a dimension returns no slice, the loop of
  \<^verbatim>\<open>hypertable_restrict_info_get_chunk_oids\<close> ends there and the function returns no chunk:
  whatever the dimensions before it (\<open>pre\<close>) and after it (\<open>post\<close>) hold, and without a
  call of the chunk lookup.
\<close>

theorem get_chunk_oids_short_circuit:
  assumes "dimension_restrict_info_slices scan d = []"
  shows "get_chunk_oids_loop scan (pre @ d # post) vecs = None
       \<and> hypertable_restrict_info_get_chunk_oids scan find_oids
           (hri\<lparr>dimension_restriction := pre @ d # post\<rparr>) space lockmode = []"
  using loop_None_if_empty [OF assms]
  by (simp add: hypertable_restrict_info_get_chunk_oids_def)

theorem get_chunk_oids_short_circuit_witness:
  "dimension_restrict_info_slices
       (dimension_slice_scan_range_limit (time_slices @ device_slices))
       (Open \<lparr>open_dimension = time_dimension, lower_bound = 500,
              lower_strategy = BTGreaterEqualStrategyNumber, upper_bound = 0,
              upper_strategy = InvalidStrategy\<rparr>) = []
   \<and> hypertable_restrict_info_get_chunk_oids
       (dimension_slice_scan_range_limit (time_slices @ device_slices)) chunk_find_all_oids
       (\<lparr>num_base_restrictions = 1, dimension_restriction = []\<rparr>
          \<lparr>dimension_restriction :=
             [] @ Open \<lparr>open_dimension = time_dimension, lower_bound = 500,
                        lower_strategy = BTGreaterEqualStrategyNumber, upper_bound = 0,
                        upper_strategy = InvalidStrategy\<rparr>
                # [Closed (dimension_restrict_info_closed_create device_dimension)]\<rparr>)
       all_chunks () = []"
proof -
  have none: "dimension_restrict_info_slices
       (dimension_slice_scan_range_limit (time_slices @ device_slices))
       (Open \<lparr>open_dimension = time_dimension, lower_bound = 500,
              lower_strategy = BTGreaterEqualStrategyNumber, upper_bound = 0,
              upper_strategy = InvalidStrategy\<rparr>) = []"
    by (simp add: dimension_restrict_info_open_slices_def dimension_slice_scan_range_limit_def
        strategy_holds_def strategy_defs time_dimension_def time_slices_def device_slices_def)
  from get_chunk_oids_short_circuit
      [OF none, of "[]" "[Closed (dimension_restrict_info_closed_create device_dimension)]"
         "[]" chunk_find_all_oids "\<lparr>num_base_restrictions = 1, dimension_restriction = []\<rparr>"
         all_chunks "()"]
    none
  show ?thesis
    by blast
qed

subsection \<open>Facts about the open accumulator\<close>

lemma never_widened_refl [simp]: "never_widened dri dri"
  by (simp add: never_widened_def)

lemma never_widened_trans:
  "never_widened a b \<Longrightarrow> never_widened b c \<Longrightarrow> never_widened a c"
  by (auto simp: never_widened_def word_sle_eq)

lemma open_add_value_other:
  assumes "strat \<noteq> BTEqualStrategyNumber"
  shows "never_widened (snd st) (snd (open_add_value strat v st))"
  using assms
  by (auto simp: open_add_value_def never_widened_def Let_def word_sle_eq word_sless_alt)

lemma open_add_value_equal:
  assumes "within_bounds dri v"
  shows "never_widened dri (snd (open_add_value BTEqualStrategyNumber v st))"
  using assms
  by (auto simp: open_add_value_def never_widened_def within_bounds_def Let_def)

lemma open_add_values_other:
  assumes "strat \<noteq> BTEqualStrategyNumber"
  shows "never_widened (snd st)
           (snd (foldl (\<lambda>st item. open_add_value strat (f item) st) st items))"
proof (induction items arbitrary: st)
  case Nil
  show ?case by simp
next
  case (Cons item items)
  show ?case
    using never_widened_trans [OF open_add_value_other [OF assms, of st "f item"]
        Cons.IH [of "open_add_value strat (f item) st"]]
    by simp
qed

lemma open_add_values_equal:
  assumes "list_all (\<lambda>item. within_bounds dri (f item)) items"
    and "never_widened dri (snd st)"
  shows "never_widened dri
           (snd (foldl (\<lambda>st item. open_add_value BTEqualStrategyNumber (f item) st) st items))"
  using assms
proof (induction items arbitrary: st)
  case Nil
  then show ?case by simp
next
  case (Cons item items)
  then show ?case
    by (simp add: open_add_value_equal)
qed

lemma created_open_strategies_ok:
  "open_strategies_ok (dimension_restrict_info_open_create lb0 ub0 d)"
  by (simp add: open_strategies_ok_def dimension_restrict_info_open_create_def)

lemma open_add_value_strategies_ok:
  "open_strategies_ok (snd st) \<Longrightarrow> open_strategies_ok (snd (open_add_value strat v st))"
  by (auto simp: open_add_value_def open_strategies_ok_def Let_def)

lemma open_add_values_strategies_ok:
  "open_strategies_ok (snd st) \<Longrightarrow>
   open_strategies_ok (snd (foldl (\<lambda>st item. open_add_value strat (f item) st) st items))"
  by (induction items arbitrary: st) (simp_all add: open_add_value_strategies_ok)

lemma open_add_strategies_ok:
  assumes "open_strategies_ok dri"
  shows "open_strategies_ok (snd (dimension_restrict_info_open_add tvi dri strat dimValues))"
  using assms open_add_values_strategies_ok
    [where st = "(False, dri)" and f = "\<lambda>item. tvi item (dv_type dimValues)" and strat = strat
       and items = "dv_values dimValues"]
  by (simp add: dimension_restrict_info_open_add_def)

lemma upper_admits_within:
  assumes "us \<in> {InvalidStrategy, BTLessStrategyNumber, BTLessEqualStrategyNumber}"
    and "strategy_holds us v U" and "us \<noteq> InvalidStrategy"
  shows "v \<le>s U"
  using assms by (auto simp: strategy_holds_def strategy_defs word_sle_eq word_sless_alt)

lemma lower_admits_within:
  assumes "ls \<in> {InvalidStrategy, BTGreaterEqualStrategyNumber, BTGreaterStrategyNumber}"
    and "strategy_holds ls v L" and "ls \<noteq> InvalidStrategy"
  shows "L \<le>s v"
  using assms by (auto simp: strategy_holds_def strategy_defs word_sle_eq word_sless_alt)

lemma admits_within_bounds:
  assumes "open_strategies_ok dri" and "open_admits dri v"
  shows "within_bounds dri v"
  using assms upper_admits_within [of "upper_strategy dri" v "upper_bound dri"]
    lower_admits_within [of "lower_strategy dri" v "lower_bound dri"]
  by (auto simp: open_strategies_ok_def open_admits_def within_bounds_def)

lemma upper_tighter:
  assumes "strat = BTLessEqualStrategyNumber \<or> strat = BTLessStrategyNumber"
    and "us \<in> {InvalidStrategy, BTLessStrategyNumber, BTLessEqualStrategyNumber}"
    and "us = InvalidStrategy \<or> v <s U"
    and "strategy_holds strat t v"
  shows "strategy_holds us t U"
  using assms by (auto simp: strategy_holds_def strategy_defs word_sle_eq word_sless_alt)

lemma lower_tighter:
  assumes "strat = BTGreaterEqualStrategyNumber \<or> strat = BTGreaterStrategyNumber"
    and "ls \<in> {InvalidStrategy, BTGreaterEqualStrategyNumber, BTGreaterStrategyNumber}"
    and "ls = InvalidStrategy \<or> L <s v"
    and "strategy_holds strat t v"
  shows "strategy_holds ls t L"
  using assms by (auto simp: strategy_holds_def strategy_defs word_sle_eq word_sless_alt)

lemma open_add_value_narrows:
  assumes ne: "strat \<noteq> BTEqualStrategyNumber"
    and ok: "open_strategies_ok (snd st)"
    and new: "open_admits (snd (open_add_value strat v st)) t"
  shows "open_admits (snd st) t"
proof -
  consider (upper) "strat = BTLessEqualStrategyNumber \<or> strat = BTLessStrategyNumber"
    | (lower) "strat \<noteq> BTLessEqualStrategyNumber" "strat \<noteq> BTLessStrategyNumber"
        "strat = BTGreaterEqualStrategyNumber \<or> strat = BTGreaterStrategyNumber"
    | (other) "strat \<noteq> BTLessEqualStrategyNumber" "strat \<noteq> BTLessStrategyNumber"
        "strat \<noteq> BTGreaterEqualStrategyNumber" "strat \<noteq> BTGreaterStrategyNumber"
    by blast
  then show ?thesis
  proof cases
    case upper
    show ?thesis
    proof (cases "upper_strategy (snd st) = InvalidStrategy \<or> v <s upper_bound (snd st)")
      case True
      with upper new have holds: "strategy_holds strat t v"
        and low: "strategy_holds (lower_strategy (snd st)) t (lower_bound (snd st))"
        by (auto simp: open_add_value_def Let_def open_admits_def)
      from ok have "upper_strategy (snd st)
          \<in> {InvalidStrategy, BTLessStrategyNumber, BTLessEqualStrategyNumber}"
        by (simp add: open_strategies_ok_def)
      from upper_tighter [OF upper this True holds] low show ?thesis
        by (simp add: open_admits_def)
    next
      case False
      with upper new show ?thesis
        by (auto simp: open_add_value_def Let_def)
    qed
  next
    case lower
    show ?thesis
    proof (cases "lower_strategy (snd st) = InvalidStrategy \<or> lower_bound (snd st) <s v")
      case True
      with lower new have holds: "strategy_holds strat t v"
        and up: "strategy_holds (upper_strategy (snd st)) t (upper_bound (snd st))"
        by (auto simp: open_add_value_def Let_def open_admits_def)
      from ok have "lower_strategy (snd st)
          \<in> {InvalidStrategy, BTGreaterEqualStrategyNumber, BTGreaterStrategyNumber}"
        by (simp add: open_strategies_ok_def)
      from lower_tighter [OF lower(3) this True holds] up show ?thesis
        by (simp add: open_admits_def)
    next
      case False
      with lower new show ?thesis
        by (auto simp: open_add_value_def Let_def)
    qed
  next
    case other
    with ne new show ?thesis
      by (simp add: open_add_value_def Let_def)
  qed
qed

lemma open_add_values_narrow:
  assumes "strat \<noteq> BTEqualStrategyNumber"
  shows "open_strategies_ok (snd st) \<Longrightarrow>
         open_admits (snd (foldl (\<lambda>st item. open_add_value strat (f item) st) st items)) t \<Longrightarrow>
         open_admits (snd st) t"
proof (induction items arbitrary: st)
  case Nil
  then show ?case by simp
next
  case (Cons item items)
  have "open_admits (snd (open_add_value strat (f item) st)) t"
    using Cons.IH [of "open_add_value strat (f item) st"] Cons.prems
    by (simp add: open_add_value_strategies_ok)
  with assms Cons.prems(1) show ?case
    by (rule open_add_value_narrows)
qed

lemma open_add_value_equal_admits:
  assumes "open_admits (snd (open_add_value BTEqualStrategyNumber v st)) t"
  shows "t = v"
proof -
  from assms have "t \<le>s v" and "v \<le>s t"
    by (simp_all add: open_add_value_def Let_def open_admits_def strategy_holds_def
        strategy_defs)
  then show ?thesis
    by (rule signed.order.antisym)
qed

lemma open_add_values_equal_narrow:
  assumes "list_all (\<lambda>item. open_admits dri (f item)) items"
    and "open_admits (snd st) t \<Longrightarrow> open_admits dri t"
    and "open_admits
           (snd (foldl (\<lambda>st item. open_add_value BTEqualStrategyNumber (f item) st) st items)) t"
  shows "open_admits dri t"
  using assms
proof (induction items arbitrary: st)
  case Nil
  then show ?case by simp
next
  case (Cons item items)
  let ?st = "open_add_value BTEqualStrategyNumber (f item) st"
  have step: "open_admits (snd ?st) t \<Longrightarrow> open_admits dri t"
  proof -
    assume "open_admits (snd ?st) t"
    then have "t = f item" by (rule open_add_value_equal_admits)
    with Cons.prems(1) show "open_admits dri t" by simp
  qed
  from Cons.prems(1) have rest: "list_all (\<lambda>item. open_admits dri (f item)) items" by simp
  from Cons.prems(3) have "open_admits
      (snd (foldl (\<lambda>st item. open_add_value BTEqualStrategyNumber (f item) st) ?st items)) t"
    by simp
  from Cons.IH [OF rest step this] show ?case .
qed

lemma open_add_narrows:
  assumes ok: "open_strategies_ok dri"
    and eq: "equality_admitted tvi dri (strat, dimValues)"
    and new: "open_admits (snd (dimension_restrict_info_open_add tvi dri strat dimValues)) t"
  shows "open_admits dri t"
proof (cases "use_or dimValues \<and> length (dv_values dimValues) > 1")
  case True
  with new show ?thesis
    by (simp add: dimension_restrict_info_open_add_def)
next
  case False
  with new have fold: "open_admits
      (snd (foldl (\<lambda>st item. open_add_value strat (tvi item (dv_type dimValues)) st)
              (False, dri) (dv_values dimValues))) t"
    by (auto simp: dimension_restrict_info_open_add_def split: if_splits)
  show ?thesis
  proof (cases "strat = BTEqualStrategyNumber")
    case True
    with eq have all: "list_all (\<lambda>item. open_admits dri (tvi item (dv_type dimValues)))
        (dv_values dimValues)"
      by (simp add: equality_admitted_def)
    from fold True show ?thesis
      using open_add_values_equal_narrow
        [where dri = dri and f = "\<lambda>item. tvi item (dv_type dimValues)"
           and items = "dv_values dimValues" and st = "(False, dri)" and t = t, OF all]
      by simp
  next
    case False
    from open_add_values_narrow
      [OF False, where st = "(False, dri)" and f = "\<lambda>item. tvi item (dv_type dimValues)"
         and items = "dv_values dimValues" and t = t]
      ok fold
    show ?thesis by simp
  qed
qed

lemma open_add_bounds:
  assumes "open_strategies_ok dri" and "equality_admitted tvi dri (strat, dimValues)"
  shows "never_widened dri (snd (dimension_restrict_info_open_add tvi dri strat dimValues))"
proof (cases "strat = BTEqualStrategyNumber")
  case True
  with assms have "list_all (\<lambda>item. within_bounds dri (tvi item (dv_type dimValues)))
      (dv_values dimValues)"
    by (auto simp: equality_admitted_def list_all_iff admits_within_bounds)
  with True show ?thesis
    using open_add_values_equal
      [of dri "\<lambda>item. tvi item (dv_type dimValues)" "dv_values dimValues" "(False, dri)"]
    by (simp add: dimension_restrict_info_open_add_def)
next
  case False
  then show ?thesis
    using open_add_values_other
      [of strat "(False, dri)" "\<lambda>item. tvi item (dv_type dimValues)" "dv_values dimValues"]
    by (simp add: dimension_restrict_info_open_add_def)
qed

text \<open>
  C5, as the code has it. An equality add sets both bounds to its value and both strategies
  to the inclusive ones, whatever they were. So the claim holds for the sequences of add
  calls in which the restriction met by each equality clause admits the values of the
  clause. Then the interval never widens: a bound that was set stays set, the upper bound
  does not rise, the lower bound does not fall, and every time \<open>t\<close> that the restriction
  admits after the calls was admitted before them. The restriction is one the code can
  reach: its strategies are unset or those the add function stores, as they are from the
  creation on.
\<close>

theorem open_add_calls_never_widen:
  assumes "open_strategies_ok dri" and "equalities_admitted tvi dri calls"
  shows "never_widened dri (open_add_calls tvi dri calls)
       \<and> (open_admits (open_add_calls tvi dri calls) t \<longrightarrow> open_admits dri t)
       \<and> open_strategies_ok (open_add_calls tvi dri calls)"
  using assms
proof (induction calls arbitrary: dri)
  case Nil
  then show ?case by (simp add: open_add_calls_def)
next
  case (Cons call calls)
  let ?d = "snd (dimension_restrict_info_open_add tvi dri (fst call) (snd call))"
  have calls: "open_add_calls tvi dri (call # calls) = open_add_calls tvi ?d calls"
    by (simp add: open_add_calls_def)
  from Cons.prems have one: "equality_admitted tvi dri (fst call, snd call)"
    and rest: "equalities_admitted tvi ?d calls"
    by simp_all
  have ok: "open_strategies_ok ?d"
    using Cons.prems(1) by (rule open_add_strategies_ok)
  have bounds: "never_widened dri ?d"
    using Cons.prems(1) one by (rule open_add_bounds)
  have narrow: "open_admits ?d t \<Longrightarrow> open_admits dri t"
    using Cons.prems(1) one by (rule open_add_narrows)
  from Cons.IH [OF ok rest] bounds narrow show ?case
    unfolding calls using never_widened_trans by blast
qed

theorem open_add_calls_never_widen_witness:
  "open_strategies_ok
       \<lparr>open_dimension = time_dimension, lower_bound = 100,
        lower_strategy = BTGreaterEqualStrategyNumber, upper_bound = 200,
        upper_strategy = BTLessStrategyNumber\<rparr>
   \<and> equalities_admitted time_internal
       \<lparr>open_dimension = time_dimension, lower_bound = 100,
        lower_strategy = BTGreaterEqualStrategyNumber, upper_bound = 200,
        upper_strategy = BTLessStrategyNumber\<rparr>
       [(BTLessEqualStrategyNumber, time_is 180), (BTEqualStrategyNumber, time_is 150),
        (BTGreaterStrategyNumber, time_is 120)]
   \<and> open_add_calls time_internal
       \<lparr>open_dimension = time_dimension, lower_bound = 100,
        lower_strategy = BTGreaterEqualStrategyNumber, upper_bound = 200,
        upper_strategy = BTLessStrategyNumber\<rparr>
       [(BTLessEqualStrategyNumber, time_is 180), (BTEqualStrategyNumber, time_is 150),
        (BTGreaterStrategyNumber, time_is 120)] =
       \<lparr>open_dimension = time_dimension, lower_bound = 150,
        lower_strategy = BTGreaterEqualStrategyNumber, upper_bound = 150,
        upper_strategy = BTLessEqualStrategyNumber\<rparr>
   \<and> never_widened
       \<lparr>open_dimension = time_dimension, lower_bound = 100,
        lower_strategy = BTGreaterEqualStrategyNumber, upper_bound = 200,
        upper_strategy = BTLessStrategyNumber\<rparr>
       (open_add_calls time_internal
          \<lparr>open_dimension = time_dimension, lower_bound = 100,
           lower_strategy = BTGreaterEqualStrategyNumber, upper_bound = 200,
           upper_strategy = BTLessStrategyNumber\<rparr>
          [(BTLessEqualStrategyNumber, time_is 180), (BTEqualStrategyNumber, time_is 150),
           (BTGreaterStrategyNumber, time_is 120)])
   \<and> open_admits
       (open_add_calls time_internal
          \<lparr>open_dimension = time_dimension, lower_bound = 100,
           lower_strategy = BTGreaterEqualStrategyNumber, upper_bound = 200,
           upper_strategy = BTLessStrategyNumber\<rparr>
          [(BTLessEqualStrategyNumber, time_is 180), (BTEqualStrategyNumber, time_is 150),
           (BTGreaterStrategyNumber, time_is 120)]) 150
   \<and> open_admits
       \<lparr>open_dimension = time_dimension, lower_bound = 100,
        lower_strategy = BTGreaterEqualStrategyNumber, upper_bound = 200,
        upper_strategy = BTLessStrategyNumber\<rparr> 150"
proof -
  let ?dri = "\<lparr>open_dimension = time_dimension, lower_bound = 100,
        lower_strategy = BTGreaterEqualStrategyNumber, upper_bound = 200,
        upper_strategy = BTLessStrategyNumber\<rparr>"
  let ?calls = "[(BTLessEqualStrategyNumber, time_is 180), (BTEqualStrategyNumber, time_is 150),
        (BTGreaterStrategyNumber, time_is 120)]"
  have ok: "open_strategies_ok ?dri"
    by (simp add: open_strategies_ok_def)
  have adm: "equalities_admitted time_internal ?dri ?calls"
    by (simp add: equality_admitted_def open_admits_def strategy_holds_def
        dimension_restrict_info_open_add_def open_add_value_def time_is_def time_internal_def
        strategy_defs)
  have final: "open_add_calls time_internal ?dri ?calls =
       \<lparr>open_dimension = time_dimension, lower_bound = 150,
        lower_strategy = BTGreaterEqualStrategyNumber, upper_bound = 150,
        upper_strategy = BTLessEqualStrategyNumber\<rparr>"
    by (simp add: open_add_calls_def dimension_restrict_info_open_add_def open_add_value_def
        time_is_def time_internal_def strategy_defs)
  have new: "open_admits (open_add_calls time_internal ?dri ?calls) 150"
    unfolding final by (simp add: open_admits_def strategy_holds_def strategy_defs)
  from open_add_calls_never_widen [OF ok adm, of 150] new
  have bounds: "never_widened ?dri (open_add_calls time_internal ?dri ?calls)"
    and old: "open_admits ?dri 150"
    by blast+
  from ok adm final bounds new old show ?thesis
    by blast
qed


text \<open>
  An equality clause on a strict bound itself does not agree with the restriction: the add
  would turn \<^verbatim>\<open>time < 200\<close> into \<^verbatim>\<open>time <= 200\<close>.
\<close>

lemma equality_at_strict_bound_not_admitted:
  "\<not> equalities_admitted time_internal
       \<lparr>open_dimension = time_dimension, lower_bound = 100,
        lower_strategy = BTGreaterEqualStrategyNumber, upper_bound = 200,
        upper_strategy = BTLessStrategyNumber\<rparr>
       [(BTEqualStrategyNumber, time_is 200)]"
  by (simp add: equality_admitted_def open_admits_def strategy_holds_def time_is_def
      time_internal_def strategy_defs)

text \<open>
  C5, as the claim has it, fails: after \<^verbatim>\<open>time = 10\<close> the upper bound is 10, and the add
  of \<^verbatim>\<open>time = 20\<close> raises it to 20.
\<close>

theorem open_add_equality_widens_counterexample:
  "upper_bound (open_add_calls time_internal
       (dimension_restrict_info_open_create 0 0 time_dimension)
       [(BTEqualStrategyNumber, time_is 10)]) = 10
   \<and> upper_bound (open_add_calls time_internal
       (dimension_restrict_info_open_create 0 0 time_dimension)
       [(BTEqualStrategyNumber, time_is 10), (BTEqualStrategyNumber, time_is 20)]) = 20
   \<and> \<not> never_widened
       (open_add_calls time_internal (dimension_restrict_info_open_create 0 0 time_dimension)
          [(BTEqualStrategyNumber, time_is 10)])
       (open_add_calls time_internal
          (open_add_calls time_internal (dimension_restrict_info_open_create 0 0 time_dimension)
             [(BTEqualStrategyNumber, time_is 10)])
          [(BTEqualStrategyNumber, time_is 20)])"
  by (simp add: open_add_calls_def dimension_restrict_info_open_add_def open_add_value_def
      time_is_def time_internal_def never_widened_def dimension_restrict_info_open_create_def
      strategy_defs)

subsection \<open>Rows that satisfy the clauses\<close>

text \<open>
  The accumulators and resolvers keep what a matching row needs, with one exception. A
  clause with at least one value that a row satisfies leaves a closed restriction that
  admits the partition of the row; a clause that a row satisfies leaves an open restriction
  that admits the time of the row; a slice that holds an admitted time or partition is among
  those the resolver returns from the catalog; and a chunk whose slice is returned in every
  dimension is among the chunks returned. The exception is the closed add with no value.
\<close>

lemma closed_add_keeps_matching_row:
  assumes sat: "clause_satisfied (=) dimValues x"
    and ne: "dv_values dimValues \<noteq> []"
    and adm: "closed_admits dri (pfa (partitioning (closed_dimension dri)) x)"
  shows "closed_admits (snd (dimension_restrict_info_closed_add pfa dri strat dimValues))
           (pfa (partitioning (closed_dimension dri)) x)"
proof -
  let ?f = "pfa (partitioning (closed_dimension dri))"
  let ?parts = "dimension_restrict_info_get_partitions pfa dri (dv_values dimValues)"
  have mem: "?f x \<in> set ?parts"
  proof (cases "use_or dimValues")
    case True
    with sat show ?thesis
      by (auto simp: clause_satisfied_def list_ex_iff get_partitions_set)
  next
    case False
    with sat have "\<forall>v\<in>set (dv_values dimValues). v = x"
      by (auto simp: clause_satisfied_def list_all_iff)
    with ne have "x \<in> set (dv_values dimValues)"
      by (cases "dv_values dimValues") auto
    then show ?thesis
      by (simp add: get_partitions_set)
  qed
  have one: "\<not> use_or dimValues \<Longrightarrow> length ?parts \<le> 1"
  proof -
    assume "\<not> use_or dimValues"
    with sat have "\<forall>v\<in>set (dv_values dimValues). v = x"
      by (auto simp: clause_satisfied_def list_all_iff)
    then have "?f ` set (dv_values dimValues) \<subseteq> {?f x}"
      by auto
    then have "card (?f ` set (dv_values dimValues)) \<le> card {?f x}"
      by (intro card_mono) simp_all
    then show ?thesis
      by (simp add: get_partitions_length)
  qed
  show ?thesis
    using mem one adm
    by (auto simp: dimension_restrict_info_closed_add_def closed_admits_def Let_def)
qed


lemma closed_add_no_value_admits_nothing:
  assumes "dv_values dimValues = []"
    and "strategy dri = InvalidStrategy \<or> strategy dri = BTEqualStrategyNumber"
  shows "\<not> closed_admits
           (snd (dimension_restrict_info_closed_add pfa dri BTEqualStrategyNumber dimValues))
           part"
  using assms
  by (auto simp: dimension_restrict_info_closed_add_def closed_admits_def
      dimension_restrict_info_get_partitions_def list_intersection_int_def)

lemma open_admits_update_upper:
  "strategy_holds strat t v \<Longrightarrow> open_admits dri t \<Longrightarrow>
   open_admits (dri\<lparr>upper_strategy := strat, upper_bound := v\<rparr>) t"
  by (simp add: open_admits_def)

lemma open_admits_update_lower:
  "strategy_holds strat t v \<Longrightarrow> open_admits dri t \<Longrightarrow>
   open_admits (dri\<lparr>lower_strategy := strat, lower_bound := v\<rparr>) t"
  by (simp add: open_admits_def)

lemma open_admits_update_both:
  "open_admits (dri\<lparr>lower_bound := v, upper_bound := v,
                   lower_strategy := BTGreaterEqualStrategyNumber,
                   upper_strategy := BTLessEqualStrategyNumber\<rparr>) v"
  by (simp add: open_admits_def strategy_holds_def strategy_defs)

lemma open_add_value_keeps:
  assumes "strategy_holds strat t v" and "open_admits (snd st) t"
  shows "open_admits (snd (open_add_value strat v st)) t"
proof -
  consider (upper) "strat = BTLessEqualStrategyNumber \<or> strat = BTLessStrategyNumber"
    | (lower) "strat = BTGreaterEqualStrategyNumber \<or> strat = BTGreaterStrategyNumber"
    | (equal) "strat = BTEqualStrategyNumber"
    | (other) "strat \<noteq> BTLessEqualStrategyNumber" "strat \<noteq> BTLessStrategyNumber"
        "strat \<noteq> BTGreaterEqualStrategyNumber" "strat \<noteq> BTGreaterStrategyNumber"
        "strat \<noteq> BTEqualStrategyNumber"
    by blast
  then show ?thesis
  proof cases
    case upper
    with assms show ?thesis
      by (auto simp: open_add_value_def Let_def open_admits_update_upper)
  next
    case lower
    then have "strat \<noteq> BTLessEqualStrategyNumber" "strat \<noteq> BTLessStrategyNumber"
      by (auto simp: strategy_defs)
    with lower assms show ?thesis
      by (auto simp: open_add_value_def Let_def open_admits_update_lower)
  next
    case equal
    with assms(1) have "t = v"
      by (simp add: strategy_holds_def strategy_defs)
    with equal show ?thesis
      by (simp add: open_add_value_def Let_def open_admits_update_both)
  next
    case other
    with assms(2) show ?thesis
      by (simp add: open_add_value_def Let_def)
  qed
qed

lemma open_add_values_keep:
  "list_all (\<lambda>item. strategy_holds strat t (f item)) items \<Longrightarrow> open_admits (snd st) t \<Longrightarrow>
   open_admits (snd (foldl (\<lambda>st item. open_add_value strat (f item) st) st items)) t"
  by (induction items arbitrary: st) (simp_all add: open_add_value_keeps)

lemma open_add_keeps_matching_row:
  assumes sat: "clause_satisfied (\<lambda>t item. strategy_holds strat t (tvi item (dv_type dimValues)))
                  dimValues t"
    and adm: "open_admits dri t"
  shows "open_admits (snd (dimension_restrict_info_open_add tvi dri strat dimValues)) t"
proof (cases "use_or dimValues \<and> length (dv_values dimValues) > 1")
  case True
  with adm show ?thesis
    by (simp add: dimension_restrict_info_open_add_def)
next
  case False
  have all: "list_all (\<lambda>item. strategy_holds strat t (tvi item (dv_type dimValues)))
               (dv_values dimValues)"
  proof (cases "use_or dimValues")
    case True
    with False have "length (dv_values dimValues) \<le> 1" by simp
    with sat True show ?thesis
      by (cases "dv_values dimValues") (auto simp: clause_satisfied_def)
  next
    case False
    with sat show ?thesis by (simp add: clause_satisfied_def)
  qed
  from open_add_values_keep
    [where st = "(False, dri)" and f = "\<lambda>item. tvi item (dv_type dimValues)" and strat = strat
       and items = "dv_values dimValues" and t = t]
    all adm False
  show ?thesis
    by (simp add: dimension_restrict_info_open_add_def)
qed

lemma open_slices_sound:
  assumes "open_strategies_ok dri" and "open_admits dri t"
    and "sl \<in> set catalog" and "dimension_id sl = fd_id (open_dimension dri)"
    and "range_start sl \<le>s t" and "t <s range_end sl"
  shows "sl \<in> set (dimension_restrict_info_open_slices
           (dimension_slice_scan_range_limit catalog) dri)"
  using assms
  by (auto simp: dimension_restrict_info_open_slices_def dimension_slice_scan_range_limit_def
      open_strategies_ok_def open_admits_def strategy_holds_def strategy_defs
      word_sle_eq word_sless_alt)

lemma set_add_unique_slices:
  "set (foldl dimension_vec_add_unique_slice vec sls) = set vec \<union> set sls"
  by (induction sls arbitrary: vec) (auto simp: dimension_vec_add_unique_slice_def)

lemma set_closed_slices_aux:
  "set (foldl (\<lambda>dim_vec part. foldl dimension_vec_add_unique_slice dim_vec (f part)) vec parts) =
     set vec \<union> (\<Union>part\<in>set parts. set (f part))"
  by (induction parts arbitrary: vec) (auto simp: set_add_unique_slices)

lemma closed_slices_sound:
  assumes "closed_admits dri part"
    and "sl \<in> set catalog" and "dimension_id sl = fd_id (closed_dimension dri)"
    and "range_start sl \<le>s scast part" and "scast part <s range_end sl"
  shows "sl \<in> set (dimension_restrict_info_closed_slices
           (dimension_slice_scan_range_limit catalog) dri)"
  using assms
  by (auto simp: dimension_restrict_info_closed_slices_def set_closed_slices_aux
      dimension_slice_scan_range_limit_def closed_admits_def strategy_holds_def strategy_defs
      word_sle_eq word_sless_alt)

lemma get_chunk_oids_loop_all:
  assumes "list_all2 (\<lambda>sl dri. sl \<in> set (dimension_restrict_info_slices scan dri)) sls dris"
  shows "get_chunk_oids_loop scan dris vecs =
           Some (vecs @ map (dimension_restrict_info_slices scan) dris)"
  using assms
proof (induction sls dris arbitrary: vecs rule: list_all2_induct)
  case Nil
  show ?case by simp
next
  case (Cons sl sls dri dris)
  from Cons.hyps(1) have "dimension_restrict_info_slices scan dri \<noteq> []" by auto
  with Cons.IH show ?case by (simp add: Let_def)
qed

lemma get_chunk_oids_sound:
  assumes "c \<in> set space"
    and "list_all2 (\<lambda>sl dri. sl \<in> set (dimension_restrict_info_slices scan dri))
           (cube c) (dimension_restriction hri)"
  shows "table_id c \<in> set (hypertable_restrict_info_get_chunk_oids scan chunk_find_all_oids
           hri space lockmode)"
proof -
  from assms(2) have "list_all2 (\<lambda>sl vec. sl \<in> set vec) (cube c)
      (map (dimension_restrict_info_slices scan) (dimension_restriction hri))"
    by (simp add: list_all2_map2)
  with assms(1) show ?thesis
    by (auto simp: hypertable_restrict_info_get_chunk_oids_def
        get_chunk_oids_loop_all [OF assms(2)] chunk_find_all_oids_def)
qed

text \<open>
  The assertion before the chunk lookup: when the loop runs to its end, there is one vector
  of slices for each dimension.
\<close>

lemma get_chunk_oids_loop_length:
  "get_chunk_oids_loop scan dris vecs = Some out \<Longrightarrow> length out = length vecs + length dris"
  by (induction dris arbitrary: vecs) (auto simp: Let_def split: if_splits)

text \<open>
  C1. The clause \<^verbatim>\<open>device = ALL ('{}')\<close> has an array without elements and no
  \<^verbatim>\<open>use_or\<close>: it carries no value, and every row satisfies it, whatever its device. Added
  to the fresh accumulator of the device dimension it returns true and leaves the equality
  strategy with no partition, and the hypertable restriction then yields no chunk, whatever
  the catalog holds. Without the clause the four chunks of the scenario are all returned.
\<close>

theorem empty_all_clause_excludes_every_chunk:
  "dimension_values_create_from_array element_type_of
       \<lparr>consttype = 1009, elements = []\<rparr> False =
     Inr \<lparr>dv_values = ([] :: string list), use_or = False, dv_type = 25\<rparr>
   \<and> clause_satisfied (=) \<lparr>dv_values = [], use_or = False, dv_type = 25\<rparr> dev
   \<and> hypertable_restrict_info_create lb0 ub0 [time_dimension, device_dimension] =
       Inr \<lparr>num_base_restrictions = 0,
            dimension_restriction =
              [Open (dimension_restrict_info_open_create lb0 ub0 time_dimension),
               Closed (dimension_restrict_info_closed_create device_dimension)]\<rparr>
   \<and> dimension_restrict_info_closed_add device_partition
         (dimension_restrict_info_closed_create device_dimension) BTEqualStrategyNumber
         \<lparr>dv_values = [], use_or = False, dv_type = 25\<rparr> =
       (True, \<lparr>closed_dimension = device_dimension, partitions = [],
               strategy = BTEqualStrategyNumber\<rparr>)
   \<and> hypertable_restrict_info_get_chunk_oids scan find_oids
         \<lparr>num_base_restrictions = 1,
          dimension_restriction =
            [Open (dimension_restrict_info_open_create lb0 ub0 time_dimension),
             Closed \<lparr>closed_dimension = device_dimension, partitions = [],
                     strategy = BTEqualStrategyNumber\<rparr>]\<rparr>
         space lockmode = []
   \<and> hypertable_restrict_info_get_chunk_oids
         (dimension_slice_scan_range_limit (time_slices @ device_slices)) chunk_find_all_oids
         \<lparr>num_base_restrictions = 0,
          dimension_restriction =
            [Open (dimension_restrict_info_open_create lb0 ub0 time_dimension),
             Closed (dimension_restrict_info_closed_create device_dimension)]\<rparr>
         all_chunks () = [1001, 1002, 1003, 1004]"
proof (intro conjI)
  show "dimension_values_create_from_array element_type_of
       \<lparr>consttype = 1009, elements = []\<rparr> False =
     Inr \<lparr>dv_values = ([] :: string list), use_or = False, dv_type = 25\<rparr>"
    by (simp add: dimension_values_create_from_array_def dimension_values_create_def
        element_type_of_def InvalidOid_def)
  show "hypertable_restrict_info_create lb0 ub0 [time_dimension, device_dimension] =
       Inr \<lparr>num_base_restrictions = 0,
            dimension_restriction =
              [Open (dimension_restrict_info_open_create lb0 ub0 time_dimension),
               Closed (dimension_restrict_info_closed_create device_dimension)]\<rparr>"
    by (simp add: hypertable_restrict_info_create_def dimension_restrict_info_create_def
        time_dimension_def device_dimension_def)
  show "clause_satisfied (=) \<lparr>dv_values = [], use_or = False, dv_type = 25\<rparr> dev"
    by (simp add: clause_satisfied_def)
  show "dimension_restrict_info_closed_add device_partition
         (dimension_restrict_info_closed_create device_dimension) BTEqualStrategyNumber
         \<lparr>dv_values = [], use_or = False, dv_type = 25\<rparr> =
       (True, \<lparr>closed_dimension = device_dimension, partitions = [],
               strategy = BTEqualStrategyNumber\<rparr>)"
    by (simp add: dimension_restrict_info_closed_add_def
        dimension_restrict_info_get_partitions_def dimension_restrict_info_closed_create_def)
  have none: "dimension_restrict_info_slices scan
          (Closed \<lparr>closed_dimension = device_dimension, partitions = [],
                   strategy = BTEqualStrategyNumber\<rparr>) = []"
    by (simp add: dimension_restrict_info_closed_slices_def)
  show "hypertable_restrict_info_get_chunk_oids scan find_oids
         \<lparr>num_base_restrictions = 1,
          dimension_restriction =
            [Open (dimension_restrict_info_open_create lb0 ub0 time_dimension),
             Closed \<lparr>closed_dimension = device_dimension, partitions = [],
                     strategy = BTEqualStrategyNumber\<rparr>]\<rparr>
         space lockmode = []"
    by (rule get_chunk_oids_empty_member [OF _ none]) simp
  show "hypertable_restrict_info_get_chunk_oids
         (dimension_slice_scan_range_limit (time_slices @ device_slices)) chunk_find_all_oids
         \<lparr>num_base_restrictions = 0,
          dimension_restriction =
            [Open (dimension_restrict_info_open_create lb0 ub0 time_dimension),
             Closed (dimension_restrict_info_closed_create device_dimension)]\<rparr>
         all_chunks () = [1001, 1002, 1003, 1004]"
    by (simp add: hypertable_restrict_info_get_chunk_oids_def
        dimension_restrict_info_open_slices_def dimension_restrict_info_closed_slices_def
        dimension_restrict_info_open_create_def dimension_restrict_info_closed_create_def
        dimension_slice_scan_range_limit_def strategy_holds_def strategy_defs
        time_dimension_def device_dimension_def time_slices_def device_slices_def
        all_chunks_def chunk_find_all_oids_def)
qed

end
